theory Spec2Isabelle
  imports Main
begin

section \<open>Python strings\<close>

text \<open>
  A Python \<^verbatim>\<open>str\<close> is a sequence of Unicode code points. A code point is a natural
  number; the ASCII range is \<open>0..127\<close>. String literals of the source are written with
  \<open>ustr\<close>.
\<close>

type_synonym uchar = nat
type_synonym ustring = "uchar list"

definition ustr :: "string \<Rightarrow> ustring" where
  "ustr s = map of_char s"

text \<open>
  \<^verbatim>\<open>str.isspace\<close> for one code point, which is also what \<^verbatim>\<open>str.strip()\<close> removes and
  what \<^verbatim>\<open>\s\<close> matches in a \<^verbatim>\<open>str\<close> pattern: the code points CPython lists as white space.
\<close>

definition is_space :: "uchar \<Rightarrow> bool" where
  "is_space c = ((9 \<le> c \<and> c \<le> 13) \<or> (28 \<le> c \<and> c \<le> 32) \<or> c = 133 \<or> c = 160
     \<or> c = 5760 \<or> (8192 \<le> c \<and> c \<le> 8202) \<or> c = 8232 \<or> c = 8233 \<or> c = 8239
     \<or> c = 8287 \<or> c = 12288)"

text \<open>\<^verbatim>\<open>s.strip(chars)\<close>: the characters in the class are removed at both ends.\<close>

definition strip_chars :: "(uchar \<Rightarrow> bool) \<Rightarrow> ustring \<Rightarrow> ustring" where
  "strip_chars p s = rev (dropWhile p (rev (dropWhile p s)))"

definition strip :: "ustring \<Rightarrow> ustring" where
  "strip s = strip_chars is_space s"

definition ascii_lower :: "uchar \<Rightarrow> uchar" where
  "ascii_lower c = (if 65 \<le> c \<and> c \<le> 90 then c + 32 else c)"

text \<open>
  The tables of the Python runtime that the repository uses and does not contain. They
  are parameters of the model; nothing is assumed about them.
  \<^item> \<open>lower_ext pre c post\<close>: what \<^verbatim>\<open>str.lower()\<close> puts in place of the non-ASCII
    code point \<open>c\<close> standing between \<open>pre\<close> and \<open>post\<close> (the context decides the
    case of a final sigma);
  \<^item> \<open>nfkd_ext c\<close>: the compatibility decomposition of the non-ASCII code point \<open>c\<close>
    (\<^verbatim>\<open>unicodedata.normalize('NFKD', c)\<close>).
  An ASCII code point is lower-cased by \<open>ascii_lower\<close> and is its own decomposition.
\<close>

record unicode_tables =
  lower_ext :: "ustring \<Rightarrow> uchar \<Rightarrow> ustring \<Rightarrow> ustring"
  nfkd_ext :: "uchar \<Rightarrow> ustring"

fun lower_from :: "'u unicode_tables_scheme \<Rightarrow> ustring \<Rightarrow> ustring \<Rightarrow> ustring" where
  "lower_from U pre [] = []"
| "lower_from U pre (c # cs) =
     (if c < 128 then [ascii_lower c] else lower_ext U pre c cs)
     @ lower_from U (pre @ [c]) cs"

definition lower :: "'u unicode_tables_scheme \<Rightarrow> ustring \<Rightarrow> ustring" where
  "lower U s = lower_from U [] s"

text \<open>
  \<^verbatim>\<open>unicodedata.normalize('NFKD', text).encode('ascii', 'ignore').decode('ascii')\<close>:
  the ASCII code points of the decomposition, in order. Reordering of combining marks
  moves non-ASCII code points only, and those are dropped.
\<close>

definition nfkd_ascii :: "'u unicode_tables_scheme \<Rightarrow> ustring \<Rightarrow> ustring" where
  "nfkd_ascii U s =
     concat (map (\<lambda>c. if c < 128 then [c] else filter (\<lambda>d. d < 128) (nfkd_ext U c)) s)"

section \<open>The slug function\<close>

definition hyphen :: uchar where
  "hyphen = 45"

definition is_lower_alnum :: "uchar \<Rightarrow> bool" where
  "is_lower_alnum c = ((97 \<le> c \<and> c \<le> 122) \<or> (48 \<le> c \<and> c \<le> 57))"

definition is_alnum :: "uchar \<Rightarrow> bool" where
  "is_alnum c = ((97 \<le> c \<and> c \<le> 122) \<or> (65 \<le> c \<and> c \<le> 90) \<or> (48 \<le> c \<and> c \<le> 57))"

text \<open>\<^verbatim>\<open>re.sub(r'-+', '-', text)\<close>: every run of hyphens becomes one hyphen.\<close>

fun collapse_hyphens :: "ustring \<Rightarrow> ustring" where
  "collapse_hyphens (c # d # cs) =
     (if c = hyphen \<and> d = hyphen then collapse_hyphens (d # cs)
      else c # collapse_hyphens (d # cs))"
| "collapse_hyphens cs = cs"

text \<open>
  \<^verbatim>\<open>BookmarksImporter.slugify\<close>: lower-case, strip white space, replace what is not
  \<^verbatim>\<open>[a-z0-9\-]\<close> by a hyphen, collapse the runs of hyphens, strip the hyphens at both ends.
\<close>

definition importer_slugify :: "'u unicode_tables_scheme \<Rightarrow> ustring \<Rightarrow> ustring" where
  "importer_slugify U text =
     (if text = [] then []
      else
        let t1 = strip (lower U text);
            t2 = map (\<lambda>c. if is_lower_alnum c \<or> c = hyphen then c else hyphen) t1;
            t3 = collapse_hyphens t2
        in strip_chars (\<lambda>c. c = hyphen) t3)"

text \<open>
  \<^verbatim>\<open>BookmarksManager.slugify\<close>: drop the accents, then replace in the lower-cased text
  what is not \<^verbatim>\<open>[a-zA-Z0-9]\<close> by a hyphen, collapse and strip as above.
\<close>

definition manager_slugify :: "'u unicode_tables_scheme \<Rightarrow> ustring \<Rightarrow> ustring" where
  "manager_slugify U text =
     (if text = [] then []
      else
        let t0 = nfkd_ascii U text;
            t1 = map (\<lambda>c. if is_alnum c then c else hyphen) (lower U t0);
            t2 = collapse_hyphens t1
        in strip_chars (\<lambda>c. c = hyphen) t2)"

text \<open>
  The regular language \<^verbatim>\<open>[a-z0-9]+(-[a-z0-9]+)*\<close> as a two-state automaton: the flag says
  that the character before was a letter or digit, so that a hyphen may follow and the
  word may end.
\<close>

fun slug_re_from :: "bool \<Rightarrow> ustring \<Rightarrow> bool" where
  "slug_re_from prev [] = prev"
| "slug_re_from prev (c # cs) =
     (if is_lower_alnum c then slug_re_from True cs
      else if c = hyphen \<and> prev then slug_re_from False cs
      else False)"

definition matches_slug_re :: "ustring \<Rightarrow> bool" where
  "matches_slug_re s = slug_re_from False s"

subsection \<open>The shape of a slug\<close>

text \<open>
  What the three last steps of both slug functions establish: only lower-case letters,
  digits and hyphens, no two hyphens in a row, no hyphen at either end.
\<close>

fun no_hh :: "ustring \<Rightarrow> bool" where
  "no_hh (c # d # cs) = (\<not> (c = hyphen \<and> d = hyphen) \<and> no_hh (d # cs))"
| "no_hh cs = True"

definition slug_chars :: "ustring \<Rightarrow> bool" where
  "slug_chars s = list_all (\<lambda>c. is_lower_alnum c \<or> c = hyphen) s"

definition trimmed :: "(uchar \<Rightarrow> bool) \<Rightarrow> ustring \<Rightarrow> bool" where
  "trimmed p s = (s = [] \<or> (\<not> p (hd s) \<and> \<not> p (last s)))"

definition is_slug :: "ustring \<Rightarrow> bool" where
  "is_slug s = (slug_chars s \<and> no_hh s \<and> trimmed (\<lambda>c. c = hyphen) s)"

section \<open>More of Python's string functions\<close>

text \<open>\<^verbatim>\<open>s.split(sep)\<close> for a one-character separator: always at least one piece.\<close>

fun split_on :: "uchar \<Rightarrow> ustring \<Rightarrow> ustring list" where
  "split_on sep [] = [[]]"
| "split_on sep (c # cs) =
     (if c = sep then [] # split_on sep cs
      else (case split_on sep cs of
              [] \<Rightarrow> [[c]]
            | piece # pieces \<Rightarrow> (c # piece) # pieces))"

text \<open>\<^verbatim>\<open>sep.join(parts)\<close>.\<close>

fun join_with :: "ustring \<Rightarrow> ustring list \<Rightarrow> ustring" where
  "join_with sep [] = []"
| "join_with sep [p] = p"
| "join_with sep (p # q # ps) = p @ sep @ join_with sep (q # ps)"

text \<open>\<^verbatim>\<open>s.startswith(t)\<close>, \<^verbatim>\<open>s.endswith(t)\<close> and \<^verbatim>\<open>t in s\<close>.\<close>

definition startswith :: "ustring \<Rightarrow> ustring \<Rightarrow> bool" where
  "startswith s t = (take (length t) s = t)"

definition endswith :: "ustring \<Rightarrow> ustring \<Rightarrow> bool" where
  "endswith s t = (length t \<le> length s \<and> drop (length s - length t) s = t)"

fun contains :: "ustring \<Rightarrow> ustring \<Rightarrow> bool" where
  "contains [] t = (t = [])"
| "contains (c # cs) t = (startswith (c # cs) t \<or> contains cs t)"

section \<open>The regular expressions of the source\<close>

text \<open>
  The patterns of the source are sequences of four kinds of atoms: one character of a
  class, a greedy run \<^verbatim>\<open>X*\<close> of characters of a class, a lazy run \<^verbatim>\<open>X*?\<close>, and the border
  of a group. \<^verbatim>\<open>X+\<close> is \<^verbatim>\<open>X\<close> followed by \<^verbatim>\<open>X*\<close>. \<open>rmatch\<close> is the backtracking matcher of
  \<^verbatim>\<open>re\<close> anchored at the start of the text: a greedy run first takes as many characters
  as it can and gives them back one at a time while the rest of the pattern fails; a
  lazy run takes one more character each time the rest of the pattern fails. It returns
  the rest of the text at each group border and at the end of the match.
\<close>

datatype atom = One "uchar \<Rightarrow> bool" | Star "uchar \<Rightarrow> bool" | Lazy "uchar \<Rightarrow> bool" | Mark

fun rmatch :: "atom list \<Rightarrow> ustring \<Rightarrow> ustring list option" where
  "rmatch [] s = Some [s]"
| "rmatch (One p # r) [] = None"
| "rmatch (One p # r) (c # s) = (if p c then rmatch r s else None)"
| "rmatch (Mark # r) s = map_option ((#) s) (rmatch r s)"
| "rmatch (Star p # r) [] = rmatch r []"
| "rmatch (Star p # r) (c # s) =
     (if p c then
        (case rmatch (Star p # r) s of
           Some m \<Rightarrow> Some m
         | None \<Rightarrow> rmatch r (c # s))
      else rmatch r (c # s))"
| "rmatch (Lazy p # r) [] = rmatch r []"
| "rmatch (Lazy p # r) (c # s) =
     (case rmatch r (c # s) of
        Some m \<Rightarrow> Some m
      | None \<Rightarrow> (if p c then rmatch (Lazy p # r) s else None))"

text \<open>\<^verbatim>\<open>re.search\<close>: the match at the leftmost position that has one.\<close>

fun rsearch :: "atom list \<Rightarrow> ustring \<Rightarrow> ustring list option" where
  "rsearch r [] = rmatch r []"
| "rsearch r (c # s) =
     (case rmatch r (c # s) of
        Some m \<Rightarrow> Some m
      | None \<Rightarrow> rsearch r s)"

text \<open>The text of a group, from the rests of the text at its two borders.\<close>

definition between :: "ustring \<Rightarrow> ustring \<Rightarrow> ustring" where
  "between a b = take (length a - length b) a"

text \<open>\<open>match_group k m\<close> is \<^verbatim>\<open>match.group(k)\<close> for \<open>k \<ge> 1\<close>.\<close>

definition match_group :: "nat \<Rightarrow> ustring list \<Rightarrow> ustring" where
  "match_group k m = between (m ! (2 * k - 2)) (m ! (2 * k - 1))"

text \<open>
  A literal, and a literal under \<^verbatim>\<open>re.IGNORECASE\<close>. The literals matched without regard
  to case are written in lower case in the source. A character matches a lower-case
  letter of the pattern when its ASCII lower case is that letter, and four non-ASCII
  letters match in addition: dotted capital I and dotless i match \<^verbatim>\<open>i\<close>, long s matches
  \<^verbatim>\<open>s\<close>, and the Kelvin sign matches \<^verbatim>\<open>k\<close>.
\<close>

definition ci_match :: "uchar \<Rightarrow> uchar \<Rightarrow> bool" where
  "ci_match p c =
     (ascii_lower c = p \<or> (p = 105 \<and> (c = 304 \<or> c = 305)) \<or> (p = 115 \<and> c = 383)
      \<or> (p = 107 \<and> c = 8490))"

definition lit :: "string \<Rightarrow> atom list" where
  "lit s = map (\<lambda>p. One (\<lambda>c. c = of_char p)) s"

definition lit_ci :: "string \<Rightarrow> atom list" where
  "lit_ci s = map (\<lambda>p. One (ci_match (of_char p))) s"

definition except :: "char \<Rightarrow> uchar \<Rightarrow> bool" where
  "except x c = (c \<noteq> of_char x)"

text \<open>\<^verbatim>\<open>.\<close> matches everything but the line feed.\<close>

definition dot :: "uchar \<Rightarrow> bool" where
  "dot c = (c \<noteq> 10)"

section \<open>The HTML parser\<close>

text \<open>
  The functions of the Python standard library that the importer calls on text and that
  are not part of the repository; parameters of the model:
  \<^item> \<open>unquote\<close>: \<^verbatim>\<open>urllib.parse.unquote\<close>;
  \<^item> \<open>json_loads\<close>: \<^verbatim>\<open>json.loads\<close>, \<open>None\<close> when it raises \<^verbatim>\<open>JSONDecodeError\<close>;
  \<^item> \<open>csv_rows\<close>: the rows \<^verbatim>\<open>csv.DictReader\<close> yields for a text, each a dictionary, or
    \<open>None\<close> where the reader raises;
  \<^item> \<open>md5_hexdigest\<close>: \<^verbatim>\<open>hashlib.md5(text.encode()).hexdigest()\<close>.
\<close>

datatype json =
    JNull
  | JBool bool
  | JInt int
  | JFloat bool  \<comment> \<open>a float; the importers only ever test whether it is nonzero, the argument\<close>
  | JStr ustring
  | JArr "json list"
  | JObj "(ustring \<times> json) list"

record library =
  unquote :: "ustring \<Rightarrow> ustring"
  json_loads :: "ustring \<Rightarrow> json option"
  csv_rows :: "ustring \<Rightarrow> (ustring \<times> json) list option list"
  md5_hexdigest :: "ustring \<Rightarrow> ustring"

text \<open>A bookmark as \<^verbatim>\<open>_parse_html_bookmarks\<close> builds it: a dictionary with these six keys.\<close>

record bookmark =
  bm_title :: ustring
  bm_uri :: ustring
  bm_category :: ustring
  bm_tags :: ustring
  bm_add_date :: ustring
  bm_last_modified :: ustring

text \<open>The loop variables of \<^verbatim>\<open>_parse_html_bookmarks\<close>.\<close>

record parser_state =
  bookmarks :: "bookmark list"
  path_parts :: "ustring list"
  current_category :: ustring

text \<open>\<^verbatim>\<open><dt><h3[^>]*>([^<]+)</h3>\<close>, ignoring case.\<close>

definition folder_re :: "atom list" where
  "folder_re =
     lit_ci ''<dt><h3'' @ [Star (except CHR ''>'')] @ lit_ci ''>''
     @ [Mark, One (except CHR ''<''), Star (except CHR ''<''), Mark] @ lit_ci ''</h3>''"

text \<open>\<^verbatim>\<open><dt><a[^>]*href="([^"]*)"[^>]*>([^<]+)</a>\<close>, ignoring case.\<close>

definition bookmark_re :: "atom list" where
  "bookmark_re =
     lit_ci ''<dt><a'' @ [Star (except CHR ''>'')] @ lit_ci ''href=\"''
     @ [Mark, Star (except CHR ''\"''), Mark] @ lit_ci ''\"''
     @ [Star (except CHR ''>'')] @ lit_ci ''>''
     @ [Mark, One (except CHR ''<''), Star (except CHR ''<''), Mark] @ lit_ci ''</a>''"

text \<open>\<^verbatim>\<open>name="([^"]*)"\<close> for an attribute name; the case counts.\<close>

definition attr_re :: "string \<Rightarrow> atom list" where
  "attr_re name = lit name @ lit ''=\"'' @ [Mark, Star (except CHR ''\"''), Mark] @ lit ''\"''"

text \<open>\<^verbatim>\<open></dl>\<close>, ignoring case.\<close>

definition close_re :: "atom list" where
  "close_re = lit_ci ''</dl>''"

definition attr_value :: "string \<Rightarrow> ustring \<Rightarrow> ustring" where
  "attr_value name line =
     (case rsearch (attr_re name) line of
        Some m \<Rightarrow> match_group 1 m
      | None \<Rightarrow> [])"

text \<open>
  One turn of the loop over the lines: a folder line, else a bookmark line, else a
  closing line, else nothing.
\<close>

definition parse_line :: "'u unicode_tables_scheme \<Rightarrow> library \<Rightarrow> parser_state \<Rightarrow> ustring \<Rightarrow> parser_state" where
  "parse_line U L st raw =
     (let line = strip raw in
      case rsearch folder_re line of
        Some m \<Rightarrow>
          (let folder_name = strip (match_group 1 m);
               folder_slug = importer_slugify U folder_name;
               parts = path_parts st @ [folder_slug]
           in st\<lparr>path_parts := parts, current_category := join_with (ustr ''/'') parts\<rparr>)
      | None \<Rightarrow>
          (case rsearch bookmark_re line of
             Some m \<Rightarrow>
               (let uri = unquote L (strip (match_group 1 m));
                    title = strip (match_group 2 m);
                    b = \<lparr>bm_title = title, bm_uri = uri,
                         bm_category = current_category st,
                         bm_tags = attr_value ''tags'' line,
                         bm_add_date = attr_value ''add_date'' line,
                         bm_last_modified = attr_value ''last_modified'' line\<rparr>
                in st\<lparr>bookmarks := bookmarks st @ [b]\<rparr>)
           | None \<Rightarrow>
               (case rsearch close_re line of
                  Some m \<Rightarrow>
                    (if path_parts st \<noteq> [] then
                       (let parts = butlast (path_parts st)
                        in st\<lparr>path_parts := parts,
                              current_category :=
                                (if parts \<noteq> [] then join_with (ustr ''/'') parts
                                 else ustr ''unsorted'')\<rparr>)
                     else st)
                | None \<Rightarrow> st)))"

definition parser_start :: parser_state where
  "parser_start = \<lparr>bookmarks = [], path_parts = [], current_category = ustr ''unsorted''\<rparr>"

definition parse_html_bookmarks :: "'u unicode_tables_scheme \<Rightarrow> library \<Rightarrow> ustring \<Rightarrow> bookmark list" where
  "parse_html_bookmarks U L html_content =
     bookmarks (foldl (parse_line U L) parser_start (split_on 10 html_content))"

subsection \<open>Fixtures\<close>

text \<open>
  Runtime tables that leave every non-ASCII code point alone, and a library whose
  \<open>unquote\<close> finds nothing to decode, whose parsers accept no text and whose digest is
  empty.
\<close>

definition plain_tables :: unicode_tables where
  "plain_tables = \<lparr>lower_ext = (\<lambda>pre c post. [c]), nfkd_ext = (\<lambda>c. [c])\<rparr>"

definition plain_library :: library where
  "plain_library =
     \<lparr>unquote = (\<lambda>s. s), json_loads = (\<lambda>s. None), csv_rows = (\<lambda>s. []),
      md5_hexdigest = (\<lambda>s. [])\<rparr>"

text \<open>
  A Netscape export: folder A holding a bookmark and folder B, B holding a bookmark, both
  folders closed, a bookmark after them, one more closing line than folders, and a last
  bookmark.
\<close>

definition nested_fixture :: ustring where
  "nested_fixture = ustr
     ''<DT><H3>A</H3>\<newline><DL><p>\<newline><DT><A HREF=\"http://x/1\">One</A>\<newline><DT><H3>B</H3>\<newline><DL><p>\<newline><DT><A HREF=\"http://x/2\">Two</A>\<newline></DL><p>\<newline></DL><p>\<newline><DT><A HREF=\"http://x/3\">Three</A>\<newline></DL><p>\<newline><DT><A HREF=\"http://x/4\">Four</A>''"

text \<open>
  The same two folders with the bookmark of B before the bookmark of A: B is closed,
  then A holds its bookmark and is closed, and a bookmark follows.
\<close>

definition inner_first_fixture :: ustring where
  "inner_first_fixture = ustr
     ''<DT><H3>A</H3>\<newline><DL><p>\<newline><DT><H3>B</H3>\<newline><DL><p>\<newline><DT><A HREF=\"http://x/2\">Two</A>\<newline></DL><p>\<newline><DT><A HREF=\"http://x/1\">One</A>\<newline></DL><p>\<newline><DT><A HREF=\"http://x/3\">Three</A>''"

section \<open>The file system and the clock\<close>

text \<open>
  The file system as the importer sees it: what stands at a path (nothing, a directory
  or a file with its text), and the paths at which the operating system refuses to
  create a directory or to open a file for writing (permissions, a full disk, a name
  that is too long, a file where a directory is needed). A path with a slash at its end
  names the same node as the path without it.
\<close>

datatype node = Dir | File ustring

record filesystem =
  nodes :: "ustring \<Rightarrow> node option"
  refuses :: "ustring \<Rightarrow> bool"

definition slash :: uchar where
  "slash = 47"

definition path_key :: "ustring \<Rightarrow> ustring" where
  "path_key p = rev (dropWhile (\<lambda>c. c = slash) (rev p))"

datatype py_error =
    AttributeError | TypeError | KeyError | OSError | UnicodeEncodeError
  | JSONDecodeError | CsvError

text \<open>\<^verbatim>\<open>os.path.join(a, b)\<close> on POSIX.\<close>

definition os_path_join :: "ustring \<Rightarrow> ustring \<Rightarrow> ustring" where
  "os_path_join a b =
     (if b \<noteq> [] \<and> hd b = slash then b
      else if a = [] \<or> last a = slash then a @ b
      else a @ [slash] @ b)"

definition os_path_exists :: "filesystem \<Rightarrow> ustring \<Rightarrow> bool" where
  "os_path_exists fs p = (nodes fs (path_key p) \<noteq> None)"

text \<open>\<^verbatim>\<open>os.makedirs(p, exist_ok=True)\<close>.\<close>

definition os_makedirs :: "filesystem \<Rightarrow> ustring \<Rightarrow> py_error + filesystem" where
  "os_makedirs fs p =
     (case nodes fs (path_key p) of
        Some Dir \<Rightarrow> Inr fs
      | Some (File t) \<Rightarrow> Inl OSError
      | None \<Rightarrow>
          (if refuses fs (path_key p) then Inl OSError
           else Inr (fs\<lparr>nodes := (nodes fs)(path_key p \<mapsto> Dir)\<rparr>)))"

text \<open>
  A code point that UTF-8 cannot encode (a surrogate, which \<^verbatim>\<open>json.loads\<close> can produce
  from an escape).
\<close>

definition is_surrogate :: "uchar \<Rightarrow> bool" where
  "is_surrogate c = (55296 \<le> c \<and> c \<le> 57343)"

text \<open>
  \<^verbatim>\<open>with open(p, 'w', encoding='utf-8') as f: f.write(content)\<close>. Opening creates or
  empties the file; the write raises when the text cannot be encoded, and then the
  empty file stays.
\<close>

definition write_text :: "filesystem \<Rightarrow> ustring \<Rightarrow> ustring \<Rightarrow> py_error + filesystem" where
  "write_text fs p content =
     (if refuses fs (path_key p) \<or> nodes fs (path_key p) = Some Dir then Inl OSError
      else if list_ex is_surrogate content then Inl UnicodeEncodeError
      else Inr (fs\<lparr>nodes := (nodes fs)(path_key p \<mapsto> File content)\<rparr>))"

definition after_failed_write :: "filesystem \<Rightarrow> ustring \<Rightarrow> ustring \<Rightarrow> filesystem" where
  "after_failed_write fs p content =
     (if refuses fs (path_key p) \<or> nodes fs (path_key p) = Some Dir then fs
      else fs\<lparr>nodes := (nodes fs)(path_key p \<mapsto> File [])\<rparr>)"

text \<open>What \<^verbatim>\<open>datetime.now()\<close> returns.\<close>

record datetime =
  year :: nat
  month :: nat
  day :: nat
  hour :: nat
  minute :: nat
  second :: nat


definition digit :: "nat \<Rightarrow> uchar" where
  "digit d = 48 + d"


text \<open>\<^verbatim>\<open>%m\<close>, \<^verbatim>\<open>%d\<close>, \<^verbatim>\<open>%H\<close>, \<^verbatim>\<open>%M\<close>, \<^verbatim>\<open>%S\<close>: two digits; \<^verbatim>\<open>%Y\<close>: the year in decimal.\<close>

definition two_digits :: "nat \<Rightarrow> ustring" where
  "two_digits n = [digit (n div 10 mod 10), digit (n mod 10)]"

fun decimal :: "nat \<Rightarrow> ustring" where
  "decimal n = (if n < 10 then [digit n] else decimal (n div 10) @ [digit (n mod 10)])"

declare decimal.simps [simp del]

text \<open>\<^verbatim>\<open>t.strftime("%Y%m%d_%H%M%S")\<close>.\<close>

definition strftime :: "datetime \<Rightarrow> ustring" where
  "strftime t =
     decimal (year t) @ two_digits (month t) @ two_digits (day t) @ ustr ''_''
     @ two_digits (hour t) @ two_digits (minute t) @ two_digits (second t)"


section \<open>The file writer\<close>

text \<open>Python's truth value of a decoded JSON value.\<close>

fun truthy :: "json \<Rightarrow> bool" where
  "truthy JNull = False"
| "truthy (JBool b) = b"
| "truthy (JInt i) = (i \<noteq> 0)"
| "truthy (JFloat nonzero) = nonzero"
| "truthy (JStr s) = (s \<noteq> [])"
| "truthy (JArr xs) = (xs \<noteq> [])"
| "truthy (JObj kvs) = (kvs \<noteq> [])"

text \<open>
  \<^verbatim>\<open>x.strip() if x else default\<close>: only a string has \<^verbatim>\<open>strip\<close>; on any other true value
  the call raises \<^verbatim>\<open>AttributeError\<close>.
\<close>

definition strip_or :: "json \<Rightarrow> ustring \<Rightarrow> py_error + ustring" where
  "strip_or x dflt =
     (if truthy x then (case x of JStr s \<Rightarrow> Inr (strip s) | _ \<Rightarrow> Inl AttributeError)
      else Inr dflt)"

text \<open>
  \<^verbatim>\<open>sanitize_filename\<close>: each of the nine characters \<^verbatim>\<open>< > : " / \ | ? *\<close> becomes an
  underscore; at most 200 characters are kept.
\<close>

definition unsafe_char :: "uchar \<Rightarrow> bool" where
  "unsafe_char c = (c \<in> set [60, 62, 58, 34, 47, 92, 124, 63, 42])"

definition sanitize_filename :: "ustring \<Rightarrow> ustring" where
  "sanitize_filename filename =
     (let f = map (\<lambda>c. if unsafe_char c then 95 else c) filename
      in if length f > 200 then take 200 f else f)"

text \<open>
  What \<^verbatim>\<open>create_bookmark_file\<close> returns: the dictionary of a success, or the dictionary
  of a failure with the error and the title and the URI as they stood when it was raised.
\<close>

datatype write_result =
    Written (wr_filename: ustring) (wr_title: ustring) (wr_uri: ustring)
      (wr_category: ustring) (wr_tags: ustring)
  | WriteFailed py_error json json

fun wr_success :: "write_result \<Rightarrow> bool" where
  "wr_success (Written f t u c g) = True"
| "wr_success (WriteFailed e t u) = False"

text \<open>The title a result carries, under the key \<^verbatim>\<open>"title"\<close>.\<close>

fun result_title :: "write_result \<Rightarrow> json" where
  "result_title (Written f t u c g) = JStr t"
| "result_title (WriteFailed e t u) = t"

definition bookmark_text :: "ustring \<Rightarrow> ustring \<Rightarrow> ustring \<Rightarrow> ustring \<Rightarrow> ustring \<Rightarrow> ustring" where
  "bookmark_text title uri tags add_date last_modified =
     ustr ''---\<newline>title: '' @ title @ ustr ''\<newline>uri: '' @ uri @ ustr ''\<newline>tags: ['' @ tags
     @ ustr '']\<newline>''
     @ (if add_date \<noteq> [] then ustr ''add_date: '' @ add_date @ ustr ''\<newline>'' else [])
     @ (if last_modified \<noteq> [] then ustr ''last_modified: '' @ last_modified @ ustr ''\<newline>''
        else [])
     @ ustr ''---\<newline>['' @ title @ ustr ''](''  @ uri @ ustr '')\<newline>''"

text \<open>
  The three paths \<^verbatim>\<open>create_bookmark_file\<close> computes from the stripped category and
  title: the category's directory, the file named after the title's slug, and the file
  with the time appended to the slug.
\<close>

definition category_dir :: "'u unicode_tables_scheme \<Rightarrow> ustring \<Rightarrow> ustring \<Rightarrow> ustring" where
  "category_dir U bdir category = os_path_join bdir (importer_slugify U category)"

definition plain_path :: "'u unicode_tables_scheme \<Rightarrow> ustring \<Rightarrow> ustring \<Rightarrow> ustring \<Rightarrow> ustring" where
  "plain_path U bdir category title =
     os_path_join (category_dir U bdir category)
       (importer_slugify U (sanitize_filename title) @ ustr ''.md'')"

definition stamped_path ::
  "'u unicode_tables_scheme \<Rightarrow> ustring \<Rightarrow> ustring \<Rightarrow> ustring \<Rightarrow> datetime \<Rightarrow> ustring" where
  "stamped_path U bdir category title now =
     os_path_join (category_dir U bdir category)
       (importer_slugify U (sanitize_filename title) @ ustr ''_'' @ strftime now @ ustr ''.md'')"

text \<open>
  \<^verbatim>\<open>create_bookmark_file\<close>, on the bookmarks directory \<open>bdir\<close>, the file system \<open>fs\<close> and
  the time \<open>now\<close> that the clock shows when it is read. The four first arguments are
  whatever the caller found in its input.
\<close>

definition create_bookmark_file ::
  "'u unicode_tables_scheme \<Rightarrow> ustring \<Rightarrow> datetime \<Rightarrow> filesystem \<Rightarrow> json \<Rightarrow> json \<Rightarrow> json \<Rightarrow> json
     \<Rightarrow> ustring \<Rightarrow> ustring \<Rightarrow> write_result \<times> filesystem" where
  "create_bookmark_file U bdir now fs title0 uri0 category0 tags0 add_date last_modified =
     (case strip_or title0 (ustr ''Untitled'') of
        Inl e \<Rightarrow> (WriteFailed e title0 uri0, fs)
      | Inr title \<Rightarrow>
     (case strip_or uri0 [] of
        Inl e \<Rightarrow> (WriteFailed e (JStr title) uri0, fs)
      | Inr uri \<Rightarrow>
     (case strip_or category0 (ustr ''unsorted'') of
        Inl e \<Rightarrow> (WriteFailed e (JStr title) (JStr uri), fs)
      | Inr category \<Rightarrow>
     (case strip_or tags0 [] of
        Inl e \<Rightarrow> (WriteFailed e (JStr title) (JStr uri), fs)
      | Inr tags \<Rightarrow>
     (case os_makedirs fs (category_dir U bdir category) of
        Inl e \<Rightarrow> (WriteFailed e (JStr title) (JStr uri), fs)
      | Inr fs1 \<Rightarrow>
     (let filepath =
            (if os_path_exists fs1 (plain_path U bdir category title)
             then stamped_path U bdir category title now
             else plain_path U bdir category title);
          content = bookmark_text title uri tags add_date last_modified
      in case write_text fs1 filepath content of
           Inl e \<Rightarrow> (WriteFailed e (JStr title) (JStr uri), after_failed_write fs1 filepath content)
         | Inr fs2 \<Rightarrow> (Written filepath title uri category tags, fs2)))))))"

subsection \<open>Fixtures\<close>

definition empty_fs :: filesystem where
  "empty_fs = \<lparr>nodes = Map.empty, refuses = (\<lambda>p. False)\<rparr>"

definition some_time :: datetime where
  "some_time = \<lparr>year = 2024, month = 3, day = 7, hour = 9, minute = 5, second = 1\<rparr>"


text \<open>
  Three bookmarks with one title and one category written one after the other into an
  empty tree, the second and the third within one second.
\<close>

definition first_write :: "write_result \<times> filesystem" where
  "first_write =
     create_bookmark_file plain_tables (ustr ''/data/bookmarks'') some_time empty_fs
       (JStr (ustr ''Test'')) (JStr (ustr ''https://example.com'')) (JStr (ustr ''test'')) (JStr [])
       [] []"



section \<open>The importers\<close>

text \<open>
  The file to import: absent, present but not readable as UTF-8 text, or a text.
\<close>

datatype source_file = Missing | Unreadable | Text ustring

definition read_source :: "source_file \<Rightarrow> py_error + ustring" where
  "read_source src =
     (case src of Missing \<Rightarrow> Inl OSError | Unreadable \<Rightarrow> Inl OSError | Text content \<Rightarrow> Inr content)"

datatype error_entry =
    Raised py_error
  | FileNotFound
  | UnsupportedFormat ustring
  | ItemFailed write_result

datatype imported_entry = DryBookmark bookmark | DryItem json | Created write_result

record import_result =
  total :: nat
  success :: nat
  failed :: nat
  errors :: "error_entry list"
  imported :: "imported_entry list"

definition no_results :: import_result where
  "no_results = \<lparr>total = 0, success = 0, failed = 0, errors = [], imported = []\<rparr>"

text \<open>The dictionary every importer and \<^verbatim>\<open>import_file\<close> return for a failure of the whole file.\<close>

definition failure :: "error_entry \<Rightarrow> import_result" where
  "failure e = \<lparr>total = 0, success = 0, failed = 1, errors = [e], imported = []\<rparr>"

text \<open>The branch on \<^verbatim>\<open>result["success"]\<close> that follows every call of the writer.\<close>

definition count_result :: "import_result \<Rightarrow> write_result \<Rightarrow> import_result" where
  "count_result results r =
     (if wr_success r
      then results\<lparr>success := success results + 1, imported := imported results @ [Created r]\<rparr>
      else results\<lparr>failed := failed results + 1, errors := errors results @ [ItemFailed r]\<rparr>)"

definition count_dry :: "import_result \<Rightarrow> imported_entry \<Rightarrow> import_result" where
  "count_dry results item =
     results\<lparr>imported := imported results @ [item], success := success results + 1\<rparr>"

subsection \<open>HTML\<close>

text \<open>
  The loops take the clock as a function: \<open>clock i\<close> is the time shown while the record
  with index \<open>i\<close> is written.
\<close>

fun html_loop ::
  "'u unicode_tables_scheme \<Rightarrow> ustring \<Rightarrow> (nat \<Rightarrow> datetime) \<Rightarrow> bool \<Rightarrow> nat \<Rightarrow> import_result
     \<Rightarrow> filesystem \<Rightarrow> bookmark list \<Rightarrow> import_result \<times> filesystem" where
  "html_loop U bdir clock dry_run i results fs [] = (results, fs)"
| "html_loop U bdir clock dry_run i results fs (b # bs) =
     (if dry_run then
        html_loop U bdir clock dry_run (i + 1) (count_dry results (DryBookmark b)) fs bs
      else
        (case create_bookmark_file U bdir (clock i) fs (JStr (bm_title b)) (JStr (bm_uri b))
                (JStr (bm_category b)) (JStr (bm_tags b)) (bm_add_date b) (bm_last_modified b) of
           (r, fs') \<Rightarrow> html_loop U bdir clock dry_run (i + 1) (count_result results r) fs' bs))"

definition import_html_bookmarks ::
  "'u unicode_tables_scheme \<Rightarrow> library \<Rightarrow> ustring \<Rightarrow> (nat \<Rightarrow> datetime) \<Rightarrow> filesystem \<Rightarrow> source_file
     \<Rightarrow> bool \<Rightarrow> import_result \<times> filesystem" where
  "import_html_bookmarks U L bdir clock fs src dry_run =
     (case read_source src of
        Inl e \<Rightarrow> (failure (Raised e), fs)
      | Inr content \<Rightarrow>
          (let bms = parse_html_bookmarks U L content
           in html_loop U bdir clock dry_run 0 (no_results\<lparr>total := length bms\<rparr>) fs bms))"

subsection \<open>JSON\<close>

text \<open>\<^verbatim>\<open>d.get(key, default)\<close> on a dictionary.\<close>

definition dict_get :: "(ustring \<times> json) list \<Rightarrow> string \<Rightarrow> json \<Rightarrow> json" where
  "dict_get d key dflt = (case map_of d (ustr key) of Some v \<Rightarrow> v | None \<Rightarrow> dflt)"

text \<open>
  What \<^verbatim>\<open>len(x)\<close> counts and \<^verbatim>\<open>for item in x\<close> visits: the elements of a list, the keys
  of a dictionary, the characters of a string; \<^verbatim>\<open>TypeError\<close> for any other value.
\<close>

definition py_elements :: "json \<Rightarrow> py_error + json list" where
  "py_elements x =
     (case x of
        JArr xs \<Rightarrow> Inr xs
      | JObj kvs \<Rightarrow> Inr (map (\<lambda>kv. JStr (fst kv)) kvs)
      | JStr s \<Rightarrow> Inr (map (\<lambda>c. JStr [c]) s)
      | _ \<Rightarrow> Inl TypeError)"

text \<open>The fields the JSON and the CSV importer read from a record.\<close>

definition record_title :: "(ustring \<times> json) list \<Rightarrow> json" where
  "record_title d = dict_get d ''title'' (dict_get d ''name'' (JStr []))"

definition record_uri :: "(ustring \<times> json) list \<Rightarrow> json" where
  "record_uri d = dict_get d ''uri'' (dict_get d ''url'' (dict_get d ''link'' (JStr [])))"

definition record_category :: "(ustring \<times> json) list \<Rightarrow> json" where
  "record_category d = dict_get d ''category'' (dict_get d ''folder'' (JStr (ustr ''unsorted'')))"

definition record_tags :: "(ustring \<times> json) list \<Rightarrow> json" where
  "record_tags d = dict_get d ''tags'' (JStr [])"

text \<open>
  The loop of \<^verbatim>\<open>import_json_bookmarks\<close>. Only a dictionary has \<^verbatim>\<open>get\<close>: any other item
  raises \<^verbatim>\<open>AttributeError\<close>, which ends the import with the failure dictionary; the files
  written before stay.
\<close>

fun json_loop ::
  "'u unicode_tables_scheme \<Rightarrow> ustring \<Rightarrow> (nat \<Rightarrow> datetime) \<Rightarrow> bool \<Rightarrow> nat \<Rightarrow> import_result
     \<Rightarrow> filesystem \<Rightarrow> json list \<Rightarrow> import_result \<times> filesystem" where
  "json_loop U bdir clock dry_run i results fs [] = (results, fs)"
| "json_loop U bdir clock dry_run i results fs (b # bs) =
     (if dry_run then
        json_loop U bdir clock dry_run (i + 1) (count_dry results (DryItem b)) fs bs
      else
        (case b of
           JObj d \<Rightarrow>
             (case create_bookmark_file U bdir (clock i) fs (record_title d) (record_uri d)
                     (record_category d) (record_tags d) [] [] of
                (r, fs') \<Rightarrow> json_loop U bdir clock dry_run (i + 1) (count_result results r) fs' bs)
         | _ \<Rightarrow> (failure (Raised AttributeError), fs)))"

text \<open>The bookmarks \<^verbatim>\<open>import_json_bookmarks\<close> finds in the decoded file.\<close>

definition json_bookmarks :: "json \<Rightarrow> json" where
  "json_bookmarks data =
     (case data of
        JArr xs \<Rightarrow> data
      | JObj d \<Rightarrow>
          (case map_of d (ustr ''bookmarks'') of
             Some v \<Rightarrow> v
           | None \<Rightarrow>
               (case map_of d (ustr ''items'') of
                  Some v \<Rightarrow> v
                | None \<Rightarrow> JArr [data]))
      | _ \<Rightarrow> JArr [])"

definition import_json_bookmarks ::
  "'u unicode_tables_scheme \<Rightarrow> library \<Rightarrow> ustring \<Rightarrow> (nat \<Rightarrow> datetime) \<Rightarrow> filesystem \<Rightarrow> source_file
     \<Rightarrow> bool \<Rightarrow> import_result \<times> filesystem" where
  "import_json_bookmarks U L bdir clock fs src dry_run =
     (case read_source src of
        Inl e \<Rightarrow> (failure (Raised e), fs)
      | Inr content \<Rightarrow>
          (case json_loads L content of
             None \<Rightarrow> (failure (Raised JSONDecodeError), fs)
           | Some data \<Rightarrow>
               (case py_elements (json_bookmarks data) of
                  Inl e \<Rightarrow> (failure (Raised e), fs)
                | Inr bms \<Rightarrow>
                    json_loop U bdir clock dry_run 0 (no_results\<lparr>total := length bms\<rparr>) fs bms)))"

subsection \<open>CSV\<close>

text \<open>
  The loop of \<^verbatim>\<open>import_csv_bookmarks\<close> over what the reader yields; the total grows with
  every row. Where the reader raises, the import ends with the failure dictionary.
\<close>

fun csv_loop ::
  "'u unicode_tables_scheme \<Rightarrow> ustring \<Rightarrow> (nat \<Rightarrow> datetime) \<Rightarrow> bool \<Rightarrow> nat \<Rightarrow> import_result
     \<Rightarrow> filesystem \<Rightarrow> (ustring \<times> json) list option list \<Rightarrow> import_result \<times> filesystem" where
  "csv_loop U bdir clock dry_run i results fs [] = (results, fs)"
| "csv_loop U bdir clock dry_run i results fs (None # rows) = (failure (Raised CsvError), fs)"
| "csv_loop U bdir clock dry_run i results fs (Some row # rows) =
     (let results1 = results\<lparr>total := total results + 1\<rparr> in
      if dry_run then
        csv_loop U bdir clock dry_run (i + 1) (count_dry results1 (DryItem (JObj row))) fs rows
      else
        (case create_bookmark_file U bdir (clock i) fs (record_title row) (record_uri row)
                (record_category row) (record_tags row) [] [] of
           (r, fs') \<Rightarrow> csv_loop U bdir clock dry_run (i + 1) (count_result results1 r) fs' rows))"

definition import_csv_bookmarks ::
  "'u unicode_tables_scheme \<Rightarrow> library \<Rightarrow> ustring \<Rightarrow> (nat \<Rightarrow> datetime) \<Rightarrow> filesystem \<Rightarrow> source_file
     \<Rightarrow> bool \<Rightarrow> import_result \<times> filesystem" where
  "import_csv_bookmarks U L bdir clock fs src dry_run =
     (case read_source src of
        Inl e \<Rightarrow> (failure (Raised e), fs)
      | Inr content \<Rightarrow> csv_loop U bdir clock dry_run 0 no_results fs (csv_rows L content))"

subsection \<open>Pocket\<close>

text \<open>\<^verbatim>\<open>key in x\<close> and \<^verbatim>\<open>x[key]\<close> for a string key.\<close>

definition py_contains :: "json \<Rightarrow> string \<Rightarrow> py_error + bool" where
  "py_contains x key =
     (case x of
        JObj d \<Rightarrow> Inr (map_of d (ustr key) \<noteq> None)
      | JArr xs \<Rightarrow> Inr (JStr (ustr key) \<in> set xs)
      | JStr s \<Rightarrow> Inr (contains s (ustr key))
      | _ \<Rightarrow> Inl TypeError)"

definition py_getitem :: "json \<Rightarrow> string \<Rightarrow> py_error + json" where
  "py_getitem x key =
     (case x of
        JObj d \<Rightarrow> (case map_of d (ustr key) of Some v \<Rightarrow> Inr v | None \<Rightarrow> Inl KeyError)
      | _ \<Rightarrow> Inl TypeError)"

text \<open>
  The tags of a Pocket item: \<^verbatim>\<open>",".join(item["tags"].keys())\<close> if the item has tags and
  they are true, else the empty string.
\<close>

definition pocket_tags :: "json \<Rightarrow> py_error + ustring" where
  "pocket_tags item =
     (case py_contains item ''tags'' of
        Inl e \<Rightarrow> Inl e
      | Inr False \<Rightarrow> Inr []
      | Inr True \<Rightarrow>
          (case py_getitem item ''tags'' of
             Inl e \<Rightarrow> Inl e
           | Inr v \<Rightarrow>
               (if truthy v then
                  (case v of
                     JObj ts \<Rightarrow> Inr (join_with (ustr '','') (map fst ts))
                   | _ \<Rightarrow> Inl AttributeError)
                else Inr [])))"

fun pocket_loop ::
  "'u unicode_tables_scheme \<Rightarrow> ustring \<Rightarrow> (nat \<Rightarrow> datetime) \<Rightarrow> bool \<Rightarrow> nat \<Rightarrow> import_result
     \<Rightarrow> filesystem \<Rightarrow> (ustring \<times> json) list \<Rightarrow> import_result \<times> filesystem" where
  "pocket_loop U bdir clock dry_run i results fs [] = (results, fs)"
| "pocket_loop U bdir clock dry_run i results fs ((item_id, item) # items) =
     (if dry_run then
        pocket_loop U bdir clock dry_run (i + 1) (count_dry results (DryItem item)) fs items
      else
        (case pocket_tags item of
           Inl e \<Rightarrow> (failure (Raised e), fs)
         | Inr tags \<Rightarrow>
             (case item of
                JObj d \<Rightarrow>
                  (case create_bookmark_file U bdir (clock i) fs
                          (dict_get d ''resolved_title'' (dict_get d ''given_title'' (JStr [])))
                          (dict_get d ''resolved_url'' (dict_get d ''given_url'' (JStr [])))
                          (JStr (ustr ''pocket'')) (JStr tags) [] [] of
                     (r, fs') \<Rightarrow>
                       pocket_loop U bdir clock dry_run (i + 1) (count_result results r) fs' items)
              | _ \<Rightarrow> (failure (Raised AttributeError), fs))))"

text \<open>
  The items of a Pocket export: \<^verbatim>\<open>data["list"]\<close> if \<^verbatim>\<open>"list" in data\<close>, else the data;
  \<^verbatim>\<open>len(items)\<close> must exist, and \<^verbatim>\<open>items.items()\<close> exists for a dictionary only.
\<close>

definition pocket_items :: "json \<Rightarrow> py_error + (ustring \<times> json) list" where
  "pocket_items data =
     (case py_contains data ''list'' of
        Inl e \<Rightarrow> Inl e
      | Inr has_list \<Rightarrow>
          (case (if has_list then py_getitem data ''list'' else Inr data) of
             Inl e \<Rightarrow> Inl e
           | Inr items \<Rightarrow>
               (case py_elements items of
                  Inl e \<Rightarrow> Inl e
                | Inr elements \<Rightarrow>
                    (case items of JObj d \<Rightarrow> Inr d | _ \<Rightarrow> Inl AttributeError))))"

definition import_pocket_export ::
  "'u unicode_tables_scheme \<Rightarrow> library \<Rightarrow> ustring \<Rightarrow> (nat \<Rightarrow> datetime) \<Rightarrow> filesystem \<Rightarrow> source_file
     \<Rightarrow> bool \<Rightarrow> import_result \<times> filesystem" where
  "import_pocket_export U L bdir clock fs src dry_run =
     (case read_source src of
        Inl e \<Rightarrow> (failure (Raised e), fs)
      | Inr content \<Rightarrow>
          (case json_loads L content of
             None \<Rightarrow> (failure (Raised JSONDecodeError), fs)
           | Some data \<Rightarrow>
               (case pocket_items data of
                  Inl e \<Rightarrow> (failure (Raised e), fs)
                | Inr items \<Rightarrow>
                    pocket_loop U bdir clock dry_run 0 (no_results\<lparr>total := length items\<rparr>) fs
                      items)))"

subsection \<open>Format detection and the entry point\<close>

text \<open>\<^verbatim>\<open><dt><h3\<close> and \<^verbatim>\<open><dt><a.*href=\<close>, ignoring case.\<close>

definition html_folder_marker :: "atom list" where
  "html_folder_marker = lit_ci ''<dt><h3''"

definition html_anchor_marker :: "atom list" where
  "html_anchor_marker = lit_ci ''<dt><a'' @ [Star dot] @ lit_ci ''href=''"

text \<open>The last check of \<^verbatim>\<open>detect_file_format\<close>: CSV or unknown.\<close>

definition detect_csv :: "ustring \<Rightarrow> ustring" where
  "detect_csv content =
     (if contains content (ustr '','') \<and> contains content [10] then
        (let lines = split_on 10 content
         in if length lines > 1 \<and> contains (hd lines) (ustr '','') then ustr ''csv''
            else ustr ''unknown'')
      else ustr ''unknown'')"

definition detect_file_format :: "library \<Rightarrow> source_file \<Rightarrow> ustring" where
  "detect_file_format L src =
     (case read_source src of
        Inl e \<Rightarrow> ustr ''unknown''
      | Inr text \<Rightarrow>
          (let content = take 1024 text in
           if rsearch html_folder_marker content \<noteq> None \<or> rsearch html_anchor_marker content \<noteq> None
           then ustr ''html''
           else if startswith (strip content) (ustr ''{'') \<or> startswith (strip content) (ustr ''['')
           then
             (case json_loads L content of
                Some data \<Rightarrow>
                  (if contains content (ustr ''\"list\"'') \<or> contains content (ustr ''\"given_url\"'')
                   then ustr ''pocket'' else ustr ''json'')
              | None \<Rightarrow> detect_csv content)
           else detect_csv content))"

text \<open>
  \<^verbatim>\<open>import_file\<close>. The format is \<open>None\<close> when the caller gives none; an empty format
  string counts as none.
\<close>

definition import_file ::
  "'u unicode_tables_scheme \<Rightarrow> library \<Rightarrow> ustring \<Rightarrow> (nat \<Rightarrow> datetime) \<Rightarrow> filesystem \<Rightarrow> source_file
     \<Rightarrow> ustring option \<Rightarrow> bool \<Rightarrow> import_result \<times> filesystem" where
  "import_file U L bdir clock fs src format dry_run =
     (if src = Missing then (failure FileNotFound, fs)
      else
        (let fmt = (case format of
                      None \<Rightarrow> detect_file_format L src
                    | Some f \<Rightarrow> if f = [] then detect_file_format L src else f)
         in if fmt = ustr ''html'' then import_html_bookmarks U L bdir clock fs src dry_run
            else if fmt = ustr ''json'' then import_json_bookmarks U L bdir clock fs src dry_run
            else if fmt = ustr ''csv'' then import_csv_bookmarks U L bdir clock fs src dry_run
            else if fmt = ustr ''pocket'' then import_pocket_export U L bdir clock fs src dry_run
            else (failure (UnsupportedFormat fmt), fs)))"

subsection \<open>The shapes of an import result\<close>




text \<open>A clock that stands still.\<close>

definition steady_clock :: "nat \<Rightarrow> datetime" where
  "steady_clock i = some_time"

text \<open>
  Four small exports and a library that decodes them as Python does: a JSON array with
  one bookmark, a Pocket export with one item, a CSV file with a header and one row,
  and the JSON array whose only element is the string \<^verbatim>\<open>list\<close>.
\<close>

definition json_text :: ustring where
  "json_text = ustr ''[{\"title\": \"Test\", \"url\": \"https://example.com\"}]''"

definition pocket_text :: ustring where
  "pocket_text = ustr
     ''{\"list\": {\"1\": {\"given_url\": \"https://example.com\", \"given_title\": \"Test\", \"tags\": {\"x\": {}, \"y\": {}}}}}''"

definition csv_text :: ustring where
  "csv_text = ustr ''title,url\<newline>Test,https://example.com\<newline>''"

definition list_text :: ustring where
  "list_text = ustr ''[\"list\"]''"

definition sample_library :: library where
  "sample_library =
     \<lparr>unquote = (\<lambda>s. s),
      json_loads = (\<lambda>s.
        if s = json_text then
          Some (JArr [JObj [(ustr ''title'', JStr (ustr ''Test'')),
                            (ustr ''url'', JStr (ustr ''https://example.com''))]])
        else if s = pocket_text then
          Some (JObj [(ustr ''list'',
                  JObj [(ustr ''1'',
                    JObj [(ustr ''given_url'', JStr (ustr ''https://example.com'')),
                          (ustr ''given_title'', JStr (ustr ''Test'')),
                          (ustr ''tags'', JObj [(ustr ''x'', JObj []), (ustr ''y'', JObj [])])])])])
        else if s = list_text then Some (JArr [JStr (ustr ''list'')])
        else None),
      csv_rows = (\<lambda>s.
        if s = csv_text then
          [Some [(ustr ''title'', JStr (ustr ''Test'')),
                 (ustr ''url'', JStr (ustr ''https://example.com''))]]
        else []),
      md5_hexdigest = (\<lambda>s. [])\<rparr>"



section \<open>The search engine\<close>

text \<open>
  What \<^verbatim>\<open>os.walk\<close> yields for the bookmarks directory, in the order it yields it: each
  directory with its files, a file with its name and its text, or \<open>None\<close> where opening
  or reading it raises.
\<close>

type_synonym walk = "(ustring \<times> (ustring \<times> ustring option) list) list"

record search_result =
  sr_id :: ustring
  sr_url :: ustring
  sr_title :: ustring
  sr_tags :: "ustring list"
  sr_category :: ustring

text \<open>\<^verbatim>\<open>title:\s*(.+)\<close>, \<^verbatim>\<open>uri:\s*(.+)\<close> and \<^verbatim>\<open>tags:\s*\[(.+)\]\<close>.\<close>

definition field_re :: "string \<Rightarrow> atom list" where
  "field_re name = lit name @ lit '':'' @ [Star is_space, Mark, One dot, Star dot, Mark]"

definition tags_re :: "atom list" where
  "tags_re =
     lit ''tags:'' @ [Star is_space] @ lit ''['' @ [Mark, One dot, Star dot, Mark] @ lit '']''"

definition first_group :: "atom list \<Rightarrow> ustring \<Rightarrow> ustring" where
  "first_group re content =
     (case rsearch re content of Some m \<Rightarrow> strip (match_group 1 m) | None \<Rightarrow> [])"

text \<open>\<^verbatim>\<open>[tag.strip() for tag in tags_str.split(',') if tag.strip()]\<close>, for a non-empty string.\<close>

definition parse_tags :: "ustring \<Rightarrow> ustring list" where
  "parse_tags tags_str =
     (if tags_str \<noteq> [] then filter (\<lambda>t. t \<noteq> []) (map strip (split_on 44 tags_str)) else [])"

text \<open>\<^verbatim>\<open>os.path.basename\<close>: what follows the last slash.\<close>

definition os_path_basename :: "ustring \<Rightarrow> ustring" where
  "os_path_basename p = rev (takeWhile (\<lambda>c. c \<noteq> slash) (rev p))"

definition extract_result :: "library \<Rightarrow> ustring \<Rightarrow> ustring \<Rightarrow> ustring \<Rightarrow> search_result" where
  "extract_result L root file_path content =
     \<lparr>sr_id = md5_hexdigest L file_path,
      sr_url = first_group (field_re ''uri'') content,
      sr_title = first_group (field_re ''title'') content,
      sr_tags = parse_tags (first_group tags_re content),
      sr_category = os_path_basename root\<rparr>"

text \<open>
  The text of a file for which the body of the inner loop appends a result: the file's
  name ends in \<^verbatim>\<open>.md\<close>, it can be read, the lower-cased query occurs in its lower-cased
  text, and its path can be encoded for the digest. In every other case the loop goes
  on to the next file.
\<close>

definition matching_text ::
  "'u unicode_tables_scheme \<Rightarrow> ustring \<Rightarrow> ustring \<Rightarrow> ustring \<times> ustring option \<Rightarrow> ustring option" where
  "matching_text U query_lower root entry =
     (if endswith (fst entry) (ustr ''.md'') then
        (case snd entry of
           None \<Rightarrow> None
         | Some content \<Rightarrow>
             (if contains (lower U content) query_lower
                 \<and> \<not> list_ex is_surrogate (os_path_join root (fst entry))
              then Some content else None))
      else None)"

text \<open>The loop over the files of one directory; it ends early once the limit is reached.\<close>

fun search_files ::
  "'u unicode_tables_scheme \<Rightarrow> library \<Rightarrow> ustring \<Rightarrow> int \<Rightarrow> ustring \<Rightarrow> search_result list
     \<Rightarrow> (ustring \<times> ustring option) list \<Rightarrow> search_result list" where
  "search_files U L query_lower limit root results [] = results"
| "search_files U L query_lower limit root results (entry # rest) =
     (case matching_text U query_lower root entry of
        Some content \<Rightarrow>
          (let results1 = results @ [extract_result L root (os_path_join root (fst entry)) content]
           in if int (length results1) \<ge> limit then results1
              else search_files U L query_lower limit root results1 rest)
      | None \<Rightarrow> search_files U L query_lower limit root results rest)"

text \<open>The loop over the directories; it ends after a directory once the limit is reached.\<close>

fun search_dirs ::
  "'u unicode_tables_scheme \<Rightarrow> library \<Rightarrow> ustring \<Rightarrow> int \<Rightarrow> search_result list \<Rightarrow> walk
     \<Rightarrow> search_result list" where
  "search_dirs U L query_lower limit results [] = results"
| "search_dirs U L query_lower limit results ((root, files) # rest) =
     (let results1 = search_files U L query_lower limit root results files
      in if int (length results1) \<ge> limit then results1
         else search_dirs U L query_lower limit results1 rest)"

definition search_bookmarks ::
  "'u unicode_tables_scheme \<Rightarrow> library \<Rightarrow> walk \<Rightarrow> ustring \<Rightarrow> int \<Rightarrow> search_result list" where
  "search_bookmarks U L tree query limit =
     (if length query < 3 then []
      else search_dirs U L (lower U query) limit [] tree)"

subsection \<open>Counting what the search visits\<close>

text \<open>
  The number of files of a directory, and of a part of the tree, for which the inner loop
  appends a result.
\<close>

definition matches_in_files ::
  "'u unicode_tables_scheme \<Rightarrow> ustring \<Rightarrow> ustring \<Rightarrow> (ustring \<times> ustring option) list \<Rightarrow> nat" where
  "matches_in_files U query_lower root files =
     length (filter (\<lambda>entry. matching_text U query_lower root entry \<noteq> None) files)"

definition matches_in_tree :: "'u unicode_tables_scheme \<Rightarrow> ustring \<Rightarrow> walk \<Rightarrow> nat" where
  "matches_in_tree U query_lower tree =
     sum_list (map (\<lambda>dir. matches_in_files U query_lower (fst dir) (snd dir)) tree)"

text \<open>The tree after the first write of the fixture, as a walk.\<close>

definition test_tree :: walk where
  "test_tree =
     [(ustr ''/data/bookmarks'', []),
      (ustr ''/data/bookmarks/test'',
       [(ustr ''test.md'',
         Some (bookmark_text (ustr ''Test'') (ustr ''https://example.com'') [] [] []))])]"

section \<open>The manual creation of a bookmark\<close>

text \<open>
  What \<^verbatim>\<open>BookmarksManager.create_bookmark\<close> asks of the network and of the operating
  system; parameters of the model:
  \<^item> \<open>getcwd\<close>, \<open>expanduser\<close>, \<open>realpath\<close>: \<^verbatim>\<open>os.getcwd()\<close>, \<^verbatim>\<open>os.path.expanduser\<close>,
    \<^verbatim>\<open>os.path.realpath\<close>;
  \<^item> \<open>http_status\<close>, \<open>http_body\<close>, \<open>http_final_url\<close>: the status, the decoded body and
    the final URL of the response to a request of a URL, \<open>None\<close> when the request raises;
  \<^item> \<open>os_access_read\<close>: \<^verbatim>\<open>os.access(path, os.R_OK)\<close>.
\<close>

record environment =
  getcwd :: ustring
  expanduser :: "ustring \<Rightarrow> ustring"
  realpath :: "ustring \<Rightarrow> ustring"
  http_status :: "ustring \<Rightarrow> nat option"
  http_body :: "ustring \<Rightarrow> ustring option"
  http_final_url :: "ustring \<Rightarrow> ustring option"
  os_access_read :: "ustring \<Rightarrow> bool"

text \<open>\<^verbatim>\<open>re.match(r'^https?://', uri)\<close>.\<close>

definition is_url :: "ustring \<Rightarrow> bool" where
  "is_url uri = (startswith uri (ustr ''http://'') \<or> startswith uri (ustr ''https://''))"

definition is_local_file :: "ustring \<Rightarrow> bool" where
  "is_local_file uri =
     (startswith uri (ustr ''/'') \<or> startswith uri (ustr ''~'') \<or> startswith uri (ustr ''.'')
      \<or> startswith uri (ustr ''..''))"

definition is_file_uri :: "ustring \<Rightarrow> bool" where
  "is_file_uri uri = startswith uri (ustr ''file://'')"

definition is_file :: "ustring \<Rightarrow> bool" where
  "is_file uri = (is_local_file uri \<or> is_file_uri uri)"

definition expand_path :: "environment \<Rightarrow> ustring \<Rightarrow> ustring" where
  "expand_path env uri =
     (if uri = ustr ''.'' then getcwd env
      else if uri = ustr ''..'' then os_path_join (getcwd env) (ustr ''..'')
      else if startswith uri (ustr ''~'') then expanduser env uri
      else if startswith uri (ustr ''./'') then os_path_join (getcwd env) (drop 2 uri)
      else if startswith uri (ustr ''../'')
        then os_path_join (os_path_join (getcwd env) (ustr ''..'')) (drop 3 uri)
      else if is_file_uri uri then drop 7 uri
      else uri)"

definition is_uri_accessible :: "environment \<Rightarrow> ustring \<Rightarrow> bool" where
  "is_uri_accessible env uri =
     (if is_url uri then
        (case http_status env uri of
           Some status \<Rightarrow> 200 \<le> status \<and> status < 400
         | None \<Rightarrow> False)
      else if is_file uri then os_access_read env (expand_path env uri)
      else False)"

text \<open>\<^verbatim>\<open><title>(.*?)</title>\<close>, ignoring case.\<close>

definition title_re :: "atom list" where
  "title_re = lit_ci ''<title>'' @ [Mark, Lazy dot, Mark] @ lit_ci ''</title>''"

definition get_title_from_uri :: "environment \<Rightarrow> ustring \<Rightarrow> ustring" where
  "get_title_from_uri env uri =
     (if is_url uri then
        (case http_body env uri of
           Some html \<Rightarrow>
             (case rsearch title_re html of
                Some m \<Rightarrow> strip (match_group 1 m)
              | None \<Rightarrow> [])
         | None \<Rightarrow> [])
      else if is_file uri then os_path_basename (expand_path env uri)
      else [])"

definition get_final_uri :: "environment \<Rightarrow> ustring \<Rightarrow> ustring" where
  "get_final_uri env url = (case http_final_url env url of Some u \<Rightarrow> u | None \<Rightarrow> url)"

datatype create_error =
    UriEmpty
  | NotAccessible ustring
  | TitleEmpty ustring
  | CategoryEmpty ustring
  | FileExists ustring
  | CreateFailed py_error

text \<open>
  What \<^verbatim>\<open>create_bookmark\<close> returns: the dictionary with the key \<^verbatim>\<open>"error"\<close>, or the
  dictionary of a saved bookmark.
\<close>

datatype manager_result =
    Rejected create_error
  | Saved (sv_filename: ustring) (sv_title: ustring) (sv_uri: ustring) (sv_category: ustring)
      (sv_tags: ustring)


text \<open>The text \<^verbatim>\<open>create_bookmark\<close> writes.\<close>

definition manager_text :: "ustring \<Rightarrow> ustring \<Rightarrow> ustring \<Rightarrow> ustring" where
  "manager_text title uri all_tags =
     ustr ''---\<newline>title: '' @ title @ ustr ''\<newline>uri: '' @ uri @ ustr ''\<newline>tags: ['' @ all_tags
     @ ustr '']\<newline>---\<newline>['' @ title @ ustr ''](''  @ uri @ ustr '')\<newline>''"

text \<open>\<^verbatim>\<open>uri.rstrip('/')\<close>.\<close>

definition rstrip_slash :: "ustring \<Rightarrow> ustring" where
  "rstrip_slash s = rev (dropWhile (\<lambda>c. c = slash) (rev s))"

definition create_bookmark ::
  "'u unicode_tables_scheme \<Rightarrow> environment \<Rightarrow> ustring \<Rightarrow> filesystem \<Rightarrow> ustring \<Rightarrow> ustring \<Rightarrow> ustring
     \<Rightarrow> ustring \<Rightarrow> ustring \<Rightarrow> bool \<Rightarrow> manager_result \<times> filesystem" where
  "create_bookmark U env bdir fs title0 uri0 category0 tags name0 force =
     (if uri0 = [] then (Rejected UriEmpty, fs)
      else
        (let uri1 = (if is_file uri0 then realpath env (expand_path env uri0) else uri0);
             uri = (if is_url uri1 then get_final_uri env uri1 else uri1)
         in if \<not> is_uri_accessible env uri then (Rejected (NotAccessible uri), fs)
            else
              (let category1 =
                     (if category0 = [] then
                        (if is_local_file uri then ustr ''files'' else ustr ''unsorted'')
                      else category0);
                   title1 = (if title0 = [] then get_title_from_uri env uri else title0);
                   title = (if title1 = [] then os_path_basename (rstrip_slash uri) else title1);
                   name1 = (if name0 = [] then title else name0)
               in if title = [] then (Rejected (TitleEmpty uri), fs)
                  else if category1 = [] then (Rejected (CategoryEmpty title), fs)
                  else
                    (let category = manager_slugify U category1;
                         name = manager_slugify U name1;
                         category_dir = os_path_join bdir category
                     in case os_makedirs fs category_dir of
                          Inl e \<Rightarrow> (Rejected (CreateFailed e), fs)
                        | Inr fs1 \<Rightarrow>
                            (let filename = os_path_join category_dir (name @ ustr ''.md'')
                             in if os_path_exists fs1 filename \<and> \<not> force
                                then (Rejected (FileExists filename), fs1)
                                else
                                  (let all_tags =
                                         (if tags \<noteq> [] then category @ ustr '','' @ tags
                                          else category);
                                       content = manager_text title uri all_tags
                                   in case write_text fs1 filename content of
                                        Inl e \<Rightarrow>
                                          (Rejected (CreateFailed e),
                                           after_failed_write fs1 filename content)
                                      | Inr fs2 \<Rightarrow>
                                          (Saved filename title uri category all_tags, fs2)))))))"

text \<open>\<^verbatim>\<open>add_bookmark\<close>.\<close>

definition add_bookmark ::
  "'u unicode_tables_scheme \<Rightarrow> environment \<Rightarrow> ustring \<Rightarrow> filesystem \<Rightarrow> ustring \<Rightarrow> ustring \<Rightarrow> ustring
     \<Rightarrow> ustring \<Rightarrow> manager_result \<times> filesystem" where
  "add_bookmark U env bdir fs url title category tags =
     create_bookmark U env bdir fs title url category tags [] False"

subsection \<open>Fixtures\<close>


section \<open>Properties of the slug functions\<close>

lemma collapse_hd: "\<exists>ys. collapse_hyphens (d # cs) = d # ys"
  by (induction cs arbitrary: d) auto

lemma no_hh_collapse: "no_hh (collapse_hyphens s)"
proof (induction s rule: collapse_hyphens.induct)
  case (1 c d cs)
  obtain ys where ys: "collapse_hyphens (d # cs) = d # ys"
    using collapse_hd by blast
  with 1 show ?case by auto
qed auto

lemma collapse_fix: "no_hh s \<Longrightarrow> collapse_hyphens s = s"
  by (induction s rule: collapse_hyphens.induct) auto

lemma set_collapse: "set (collapse_hyphens s) \<subseteq> set s"
  by (induction s rule: collapse_hyphens.induct) auto

lemma no_hh_Cons: "no_hh (c # cs) \<Longrightarrow> no_hh cs"
  by (cases cs) auto

lemma no_hh_dropWhile: "no_hh s \<Longrightarrow> no_hh (dropWhile p s)"
  by (induction s) (auto dest: no_hh_Cons)

lemma no_hh_snoc: "no_hh (s @ [a]) = (no_hh s \<and> (s = [] \<or> \<not> (last s = hyphen \<and> a = hyphen)))"
  by (induction s rule: no_hh.induct) auto

lemma no_hh_Cons_iff:
  "no_hh (c # cs) = (no_hh cs \<and> (cs = [] \<or> \<not> (c = hyphen \<and> hd cs = hyphen)))"
  by (cases cs) auto

lemma no_hh_rev: "no_hh (rev s) = no_hh s"
  by (induction s) (auto simp: no_hh_snoc no_hh_Cons_iff last_rev)

lemma trimmed_strip: "trimmed p (strip_chars p s)"
  unfolding trimmed_def strip_chars_def
  by (metis Nil_is_rev_conv dropWhile.simps(1) hd_dropWhile hd_rev
    last_appendR last_rev takeWhile_dropWhile_id)

lemma strip_fix: "trimmed p s \<Longrightarrow> strip_chars p s = s"
  unfolding trimmed_def strip_chars_def
  by (metis Nil_is_rev_conv dropWhile_eq_self_iff hd_rev rev_swap)

lemma no_hh_strip: "no_hh s \<Longrightarrow> no_hh (strip_chars p s)"
  by (simp add: strip_chars_def no_hh_rev no_hh_dropWhile)

lemma slug_chars_strip: "slug_chars s \<Longrightarrow> slug_chars (strip_chars p s)"
  unfolding slug_chars_def strip_chars_def list_all_iff
  by (metis set_dropWhileD set_rev)

lemma slug_chars_collapse: "slug_chars s \<Longrightarrow> slug_chars (collapse_hyphens s)"
  unfolding slug_chars_def list_all_iff using set_collapse by blast

lemma is_slug_pipeline:
  "slug_chars t \<Longrightarrow> is_slug (strip_chars (\<lambda>c. c = hyphen) (collapse_hyphens t))"
  by (simp add: is_slug_def slug_chars_strip slug_chars_collapse no_hh_strip no_hh_collapse
      trimmed_strip)

lemma is_slug_importer: "is_slug (importer_slugify U x)"
proof (cases "x = []")
  case True
  then show ?thesis
    by (simp add: importer_slugify_def is_slug_def slug_chars_def trimmed_def)
next
  case False
  have "slug_chars (map (\<lambda>c. if is_lower_alnum c \<or> c = hyphen then c else hyphen) t)" for t
    by (induction t) (auto simp: slug_chars_def)
  with False show ?thesis
    by (simp add: importer_slugify_def Let_def is_slug_pipeline)
qed

lemma lower_from_ascii:
  "list_all (\<lambda>c. c < 128) t \<Longrightarrow> lower_from U pre t = map ascii_lower t"
  by (induction t arbitrary: pre) auto

lemma lower_ascii: "list_all (\<lambda>c. c < 128) t \<Longrightarrow> lower U t = map ascii_lower t"
  by (simp add: lower_def lower_from_ascii)

lemma nfkd_ascii_is_ascii: "list_all (\<lambda>c. c < 128) (nfkd_ascii U t)"
proof (induction t)
  case Nil
  show ?case by (simp add: nfkd_ascii_def)
next
  case (Cons c t)
  have "list_all (\<lambda>c. c < 128) (filter (\<lambda>d. d < 128) xs)" for xs :: ustring
    by (induction xs) simp_all
  with Cons show ?case by (simp add: nfkd_ascii_def)
qed

lemma alnum_of_lower: "is_alnum (ascii_lower c) \<Longrightarrow> is_lower_alnum (ascii_lower c)"
  unfolding is_alnum_def is_lower_alnum_def ascii_lower_def by (cases "65 \<le> c \<and> c \<le> 90") simp_all

lemma is_slug_manager: "is_slug (manager_slugify U x)"
proof (cases "x = []")
  case True
  then show ?thesis
    by (simp add: manager_slugify_def is_slug_def slug_chars_def trimmed_def)
next
  case False
  have "slug_chars (map (\<lambda>c. if is_alnum c then c else hyphen) (map ascii_lower t))" for t
    using alnum_of_lower by (induction t) (simp_all add: slug_chars_def)
  then have "slug_chars (map (\<lambda>c. if is_alnum c then c else hyphen) (lower U (nfkd_ascii U x)))"
    by (simp add: lower_ascii nfkd_ascii_is_ascii)
  with False show ?thesis
    by (simp add: manager_slugify_def Let_def is_slug_pipeline)
qed

lemma is_slug_ascii: "is_slug s \<Longrightarrow> list_all (\<lambda>c. c < 128) s"
  by (auto simp: is_slug_def slug_chars_def list_all_iff is_lower_alnum_def hyphen_def)

lemma is_slug_lower: "is_slug s \<Longrightarrow> lower U s = s"
proof -
  assume s: "is_slug s"
  then have "map ascii_lower s = s"
    by (intro map_idI) (auto simp: is_slug_def slug_chars_def list_all_iff is_lower_alnum_def
        hyphen_def ascii_lower_def)
  with s show ?thesis by (simp add: lower_ascii is_slug_ascii)
qed

lemma is_slug_nfkd: "is_slug s \<Longrightarrow> nfkd_ascii U s = s"
proof -
  assume "is_slug s"
  then have "list_all (\<lambda>c. c < 128) s" by (rule is_slug_ascii)
  then show ?thesis by (induction s) (simp_all add: nfkd_ascii_def)
qed

lemma is_space_range: "is_space c \<Longrightarrow> c \<le> 32 \<or> 133 \<le> c"
  unfolding is_space_def by linarith

lemma slug_char_range: "is_lower_alnum c \<or> c = hyphen \<Longrightarrow> 32 < c \<and> c < 133"
  unfolding is_lower_alnum_def hyphen_def by linarith

lemma slug_char_not_space: "is_lower_alnum c \<or> c = hyphen \<Longrightarrow> \<not> is_space c"
proof
  assume a: "is_lower_alnum c \<or> c = hyphen" and b: "is_space c"
  from slug_char_range[OF a] is_space_range[OF b] show False by linarith
qed

lemma is_slug_strip: "is_slug s \<Longrightarrow> strip s = s"
proof -
  assume s: "is_slug s"
  have "trimmed is_space s"
  proof (cases "s = []")
    case True
    then show ?thesis by (simp add: trimmed_def)
  next
    case False
    then have "hd s \<in> set s" "last s \<in> set s" by simp_all
    with s have "\<not> is_space (hd s)" "\<not> is_space (last s)"
      unfolding is_slug_def slug_chars_def list_all_iff
      using slug_char_not_space by blast+
    then show ?thesis by (simp add: trimmed_def)
  qed
  then show ?thesis unfolding strip_def by (rule strip_fix)
qed


lemma map_fix: "(\<And>c. c \<in> set s \<Longrightarrow> f c = c) \<Longrightarrow> map f s = s"
  by (induction s) auto

lemma is_slug_no_hh: "is_slug s \<Longrightarrow> no_hh s" by (simp add: is_slug_def)
lemma is_slug_trimmed: "is_slug s \<Longrightarrow> trimmed (\<lambda>c. c = hyphen) s" by (simp add: is_slug_def)

lemma importer_slugify_fix: "is_slug s \<Longrightarrow> importer_slugify U s = s"
proof -
  assume s: "is_slug s"
  have m: "map (\<lambda>c. if is_lower_alnum c \<or> c = hyphen then c else hyphen) s = s"
    using s by (intro map_fix) (auto simp: is_slug_def slug_chars_def list_all_iff)
  show ?thesis
    by (simp add: importer_slugify_def Let_def is_slug_lower[OF s] is_slug_strip[OF s] m
        collapse_fix[OF is_slug_no_hh[OF s]] strip_fix[OF is_slug_trimmed[OF s]])
qed

lemma lower_alnum_is_alnum: "is_lower_alnum c \<Longrightarrow> is_alnum c"
  by (auto simp: is_lower_alnum_def is_alnum_def)

lemma manager_slugify_fix: "is_slug s \<Longrightarrow> manager_slugify U s = s"
proof -
  assume s: "is_slug s"
  have m: "map (\<lambda>c. if is_alnum c then c else hyphen) s = s"
    using s by (intro map_fix) (auto simp: is_slug_def slug_chars_def list_all_iff lower_alnum_is_alnum)
  show ?thesis
    by (simp add: manager_slugify_def Let_def is_slug_nfkd[OF s] is_slug_lower[OF s] m
        collapse_fix[OF is_slug_no_hh[OF s]] strip_fix[OF is_slug_trimmed[OF s]])
qed

lemma slug_re_from_is_slug:
  "slug_chars s \<Longrightarrow> no_hh s \<Longrightarrow> (s \<noteq> [] \<longrightarrow> last s \<noteq> hyphen) \<Longrightarrow>
   (\<not> prev \<longrightarrow> s \<noteq> [] \<and> hd s \<noteq> hyphen) \<Longrightarrow> slug_re_from prev s"
proof (induction s arbitrary: prev)
  case Nil
  then show ?case by simp
next
  case (Cons c cs)
  have cs: "slug_chars cs" "no_hh cs" "cs \<noteq> [] \<longrightarrow> last cs \<noteq> hyphen"
    using Cons.prems by (auto simp: slug_chars_def no_hh_Cons_iff)
  show ?case
  proof (cases "is_lower_alnum c")
    case True
    then show ?thesis using Cons.IH[of True] cs by simp
  next
    case False
    with Cons.prems have c: "c = hyphen" by (simp add: slug_chars_def)
    with Cons.prems have p: "prev" by auto
    from c Cons.prems have ne: "cs \<noteq> []" by auto
    from c Cons.prems ne have "hd cs \<noteq> hyphen" by (simp add: no_hh_Cons_iff)
    with ne cs have "slug_re_from False cs" using Cons.IH[of False] by simp
    with False c p show ?thesis by simp
  qed
qed

lemma is_slug_matches: "is_slug s \<Longrightarrow> s = [] \<or> matches_slug_re s"
  unfolding matches_slug_re_def is_slug_def trimmed_def
  by (auto intro!: slug_re_from_is_slug)

text \<open>
  C4: both slug functions are idempotent, their result is empty or a word of
  \<^verbatim>\<open>[a-z0-9]+(-[a-z0-9]+)*\<close>, and the empty text gives the empty slug.
\<close>

theorem slugify_idempotent_shape:
  "importer_slugify U (importer_slugify U x) = importer_slugify U x
   \<and> (importer_slugify U x = [] \<or> matches_slug_re (importer_slugify U x))
   \<and> importer_slugify U [] = []
   \<and> manager_slugify U (manager_slugify U x) = manager_slugify U x
   \<and> (manager_slugify U x = [] \<or> matches_slug_re (manager_slugify U x))
   \<and> manager_slugify U [] = []"
proof -
  have i: "is_slug (importer_slugify U x)" by (rule is_slug_importer)
  have m: "is_slug (manager_slugify U x)" by (rule is_slug_manager)
  have ie: "importer_slugify U [] = []" by (simp add: importer_slugify_def)
  have me: "manager_slugify U [] = []" by (simp add: manager_slugify_def)
  from importer_slugify_fix[OF i] manager_slugify_fix[OF m] is_slug_matches[OF i]
    is_slug_matches[OF m] ie me
  show ?thesis by blast
qed

section \<open>Properties of the HTML parser\<close>

lemmas rx_defs = folder_re_def bookmark_re_def close_re_def attr_re_def attr_value_def lit_def
  lit_ci_def ci_match_def except_def ascii_lower_def match_group_def between_def

lemma strip_eval: "strip s = rev (dropWhile is_space (rev (dropWhile is_space s)))"
  by (simp add: strip_def strip_chars_def)

lemma fixture_categories:
  "map bm_category (parse_html_bookmarks U L nested_fixture)
     = [ustr ''a'', ustr ''a/b'', ustr ''unsorted'', ustr ''unsorted'']"
  by (simp add: nested_fixture_def parse_html_bookmarks_def parser_start_def parse_line_def ustr_def
      rx_defs strip_eval is_space_def importer_slugify_def lower_def strip_chars_def Let_def
      is_lower_alnum_def hyphen_def)

lemma inner_first_categories:
  "map bm_category (parse_html_bookmarks U L inner_first_fixture)
     = [ustr ''a/b'', ustr ''a'', ustr ''unsorted'']"
  by (simp add: inner_first_fixture_def parse_html_bookmarks_def parser_start_def parse_line_def
      ustr_def rx_defs strip_eval is_space_def importer_slugify_def lower_def strip_chars_def
      Let_def is_lower_alnum_def hyphen_def)

lemma unmatched_close:
  "path_parts st = [] \<Longrightarrow> rsearch folder_re (strip raw) = None \<Longrightarrow>
   rsearch bookmark_re (strip raw) = None \<Longrightarrow> parse_line U L st raw = st"
  by (simp add: parse_line_def Let_def split: option.splits)

text \<open>
  C2: in the export with folder A around folder B, the bookmark of A has category
  \<open>a\<close>, the bookmark of B has category \<open>a/b\<close>, and the bookmarks after the two closing
  lines have category \<open>unsorted\<close>, whether the bookmark of A stands before folder B or
  after it; a closing line met while no folder is open (and that is neither a folder
  line nor a bookmark line) leaves the parser's state as it was.
\<close>

theorem html_folder_stack:
  "map bm_category (parse_html_bookmarks U L nested_fixture)
     = [ustr ''a'', ustr ''a/b'', ustr ''unsorted'', ustr ''unsorted'']
   \<and> map bm_category (parse_html_bookmarks U L inner_first_fixture)
     = [ustr ''a/b'', ustr ''a'', ustr ''unsorted'']
   \<and> (path_parts st = [] \<and> rsearch close_re (strip raw) \<noteq> None
        \<and> rsearch folder_re (strip raw) = None \<and> rsearch bookmark_re (strip raw) = None
      \<longrightarrow> parse_line U L st raw = st)"
  using fixture_categories inner_first_categories unmatched_close by blast

theorem html_folder_stack_witness:
  "path_parts parser_start = [] \<and> rsearch close_re (strip (ustr ''</DL><p>'')) \<noteq> None
   \<and> rsearch folder_re (strip (ustr ''</DL><p>'')) = None
   \<and> rsearch bookmark_re (strip (ustr ''</DL><p>'')) = None
   \<and> parse_line plain_tables plain_library parser_start (ustr ''</DL><p>'') = parser_start"
proof -
  have h: "path_parts parser_start = [] \<and> rsearch close_re (strip (ustr ''</DL><p>'')) \<noteq> None
     \<and> rsearch folder_re (strip (ustr ''</DL><p>'')) = None
     \<and> rsearch bookmark_re (strip (ustr ''</DL><p>'')) = None"
    by (simp add: parser_start_def ustr_def rx_defs strip_eval is_space_def)
  with html_folder_stack[of plain_tables plain_library parser_start "ustr ''</DL><p>''"]
  show ?thesis by blast
qed

section \<open>Properties of the file writer\<close>

lemmas writer_defs = create_bookmark_file_def strip_or_def strip_def strip_chars_def is_space_def
  category_dir_def plain_path_def stamped_path_def os_path_join_def os_path_exists_def
  os_makedirs_def write_text_def after_failed_write_def path_key_def slash_def
  importer_slugify_def lower_def ascii_lower_def is_lower_alnum_def hyphen_def
  sanitize_filename_def unsafe_char_def bookmark_text_def is_surrogate_def
  empty_fs_def plain_tables_def ustr_def Let_def

lemma create_Written:
  assumes "create_bookmark_file U bdir now fs t0 u0 c0 g0 ad lm = (Written f t u c g, fs')"
  shows "strip_or t0 (ustr ''Untitled'') = Inr t \<and> strip_or u0 [] = Inr u
     \<and> strip_or c0 (ustr ''unsorted'') = Inr c \<and> strip_or g0 [] = Inr g
     \<and> (\<exists>fs1. os_makedirs fs (category_dir U bdir c) = Inr fs1
          \<and> f = (if os_path_exists fs1 (plain_path U bdir c t) then stamped_path U bdir c t now
                  else plain_path U bdir c t)
          \<and> write_text fs1 f (bookmark_text t u g ad lm) = Inr fs')"
  using assms
  by (auto simp: create_bookmark_file_def Let_def split: sum.splits if_splits)

lemma wr_success_Written: "wr_success r \<Longrightarrow> \<exists>f t u c g. r = Written f t u c g"
  by (cases r) auto

lemma write_text_stores:
  "write_text fs p content = Inr fs' \<Longrightarrow>
   nodes fs' = (nodes fs)(path_key p \<mapsto> File content) \<and> refuses fs' = refuses fs"
  by (auto simp: write_text_def split: if_splits)











lemma strip_or_falsy: "\<not> truthy x \<Longrightarrow> strip_or x d = Inr d"
  by (simp add: strip_or_def)

lemma create_title:
  "\<not> truthy t0 \<Longrightarrow>
   result_title (fst (create_bookmark_file U bdir now fs t0 u0 c0 g0 ad lm)) = JStr (ustr ''Untitled'')"
  by (simp add: create_bookmark_file_def strip_or_falsy Let_def split: sum.splits)

lemma create_stores:
  assumes "create_bookmark_file U bdir now fs t0 u0 c0 g0 ad lm = (Written f t u c g, fs')"
  shows "nodes fs' (path_key f) = Some (File (bookmark_text t u g ad lm))"
proof -
  from create_Written[OF assms] obtain fs1 where
    "write_text fs1 f (bookmark_text t u g ad lm) = Inr fs'" by blast
  from write_text_stores[OF this] show ?thesis by simp
qed






lemma first_write_eval:
  "first_write = (Written (ustr ''/data/bookmarks/test/test.md'') (ustr ''Test'')
      (ustr ''https://example.com'') (ustr ''test'') [],
    \<lparr>nodes = [ustr ''/data/bookmarks/test'' \<mapsto> Dir,
        ustr ''/data/bookmarks/test/test.md''
          \<mapsto> File (bookmark_text (ustr ''Test'') (ustr ''https://example.com'') [] [] [])],
      refuses = (\<lambda>p. False)\<rparr>)"
  by (simp add: first_write_def writer_defs)






text \<open>
  C9, as the code has it: when the title given is absent or empty (any value that
  Python takes for false), the call returns a result whose title is \<open>Untitled\<close>, and the
  file of a success has \<open>Untitled\<close> in its title field.
\<close>

theorem untitled_default:
  assumes "\<not> truthy title0"
    and "create_bookmark_file U bdir now fs title0 uri0 category0 tags0 ad lm = (r, fs')"
  shows "result_title r = JStr (ustr ''Untitled'')
     \<and> (wr_success r \<longrightarrow>
          nodes fs' (path_key (wr_filename r))
            = Some (File (bookmark_text (ustr ''Untitled'') (wr_uri r) (wr_tags r) ad lm)))"
proof -
  have t: "result_title r = JStr (ustr ''Untitled'')"
    using create_title[OF assms(1), of U bdir now fs uri0 category0 tags0 ad lm] assms(2) by simp
  have "nodes fs' (path_key (wr_filename r))
            = Some (File (bookmark_text (ustr ''Untitled'') (wr_uri r) (wr_tags r) ad lm))"
    if "wr_success r"
  proof -
    from wr_success_Written[OF that] obtain f tt u c g where r: "r = Written f tt u c g" by blast
    with t have "tt = ustr ''Untitled''" by simp
    with create_stores[OF assms(2)[unfolded r]] r show ?thesis by simp
  qed
  with t show ?thesis by blast
qed

lemma no_title_eval:
  "create_bookmark_file plain_tables (ustr ''/data/bookmarks'') some_time empty_fs JNull
      (JStr (ustr ''https://example.com'')) (JStr (ustr ''test'')) (JStr []) [] []
   = (Written (ustr ''/data/bookmarks/test/untitled.md'') (ustr ''Untitled'')
        (ustr ''https://example.com'') (ustr ''test'') [],
      \<lparr>nodes = [ustr ''/data/bookmarks/test'' \<mapsto> Dir,
          ustr ''/data/bookmarks/test/untitled.md''
            \<mapsto> File (bookmark_text (ustr ''Untitled'') (ustr ''https://example.com'') [] [] [])],
        refuses = (\<lambda>p. False)\<rparr>)"
  by (simp add: writer_defs)

theorem untitled_default_witness:
  "\<not> truthy JNull
   \<and> wr_success (Written (ustr ''/data/bookmarks/test/untitled.md'') (ustr ''Untitled'')
        (ustr ''https://example.com'') (ustr ''test'') [])
   \<and> result_title (fst (create_bookmark_file plain_tables (ustr ''/data/bookmarks'') some_time
        empty_fs JNull (JStr (ustr ''https://example.com'')) (JStr (ustr ''test'')) (JStr []) [] []))
       = JStr (ustr ''Untitled'')"
proof -
  have f: "\<not> truthy JNull" by simp
  from untitled_default[OF f no_title_eval] show ?thesis by (simp add: no_title_eval)
qed

text \<open>
  A title of three spaces is true for Python, so it is stripped and not replaced: the
  result and the file carry the empty title.
\<close>

theorem blank_title_counterexample:
  "result_title (fst (create_bookmark_file plain_tables (ustr ''/data/bookmarks'') some_time
      empty_fs (JStr (ustr ''   '')) (JStr (ustr ''https://example.com'')) (JStr (ustr ''test''))
      (JStr []) [] [])) = JStr []
   \<and> result_title (fst (create_bookmark_file plain_tables (ustr ''/data/bookmarks'') some_time
      empty_fs (JStr (ustr ''   '')) (JStr (ustr ''https://example.com'')) (JStr (ustr ''test''))
      (JStr []) [] [])) \<noteq> JStr (ustr ''Untitled'')
   \<and> nodes (snd (create_bookmark_file plain_tables (ustr ''/data/bookmarks'') some_time
      empty_fs (JStr (ustr ''   '')) (JStr (ustr ''https://example.com'')) (JStr (ustr ''test''))
      (JStr []) [] [])) (ustr ''/data/bookmarks/test/.md'')
     = Some (File (ustr ''---\<newline>title: \<newline>uri: https://example.com\<newline>tags: []\<newline>---\<newline>[](https://example.com)\<newline>''))"
  by (simp add: writer_defs)

section \<open>What the writer materializes\<close>

lemma slug_unsorted: "importer_slugify U (ustr ''unsorted'') = ustr ''unsorted''"
  by (simp add: importer_slugify_def lower_def strip_def strip_chars_def is_space_def
      ascii_lower_def is_lower_alnum_def hyphen_def ustr_def Let_def)

lemma record_category_default:
  "map_of d (ustr ''category'') = None \<Longrightarrow> map_of d (ustr ''folder'') = None \<Longrightarrow>
   record_category d = JStr (ustr ''unsorted'')"
  by (simp add: record_category_def dict_get_def)


text \<open>
  C6, as the code has it: the record of a successful write carries the URI it was given,
  stripped, or the empty string when none was given; nothing requires it to be
  non-empty. Its file holds the title, URI and tags of the record. When the category
  given is absent or empty, the record's category is \<open>unsorted\<close> and its directory is
  the bookmarks directory joined with \<open>unsorted\<close>; a JSON or CSV record with neither a
  \<^verbatim>\<open>category\<close> nor a \<^verbatim>\<open>folder\<close> key is passed on with the category \<open>unsorted\<close>.
\<close>

theorem materialized_record:
  assumes "create_bookmark_file U bdir now fs title0 uri0 category0 tags0 ad lm = (r, fs')"
    and "wr_success r"
  shows "strip_or uri0 [] = Inr (wr_uri r)
     \<and> nodes fs' (path_key (wr_filename r))
          = Some (File (bookmark_text (wr_title r) (wr_uri r) (wr_tags r) ad lm))
     \<and> (wr_filename r = plain_path U bdir (wr_category r) (wr_title r)
          \<or> wr_filename r = stamped_path U bdir (wr_category r) (wr_title r) now)
     \<and> (\<not> truthy category0 \<longrightarrow>
          wr_category r = ustr ''unsorted''
          \<and> category_dir U bdir (wr_category r) = os_path_join bdir (ustr ''unsorted''))
     \<and> (map_of d (ustr ''category'') = None \<and> map_of d (ustr ''folder'') = None \<longrightarrow>
          record_category d = JStr (ustr ''unsorted''))"
proof -
  from wr_success_Written[OF assms(2)] obtain f t u c g where r: "r = Written f t u c g" by blast
  note cw = create_Written[OF assms(1)[unfolded r]]
  have st: "nodes fs' (path_key f) = Some (File (bookmark_text t u g ad lm))"
    using create_stores[OF assms(1)[unfolded r]] .
  have cat: "c = ustr ''unsorted''" if "\<not> truthy category0"
    using cw strip_or_falsy[OF that, of "ustr ''unsorted''"] by simp
  from cw have fn: "f = plain_path U bdir c t \<or> f = stamped_path U bdir c t now" by auto
  show ?thesis
    using r cw st cat fn record_category_default[of d]
    by (simp add: category_dir_def slug_unsorted)
qed


lemma no_category_eval:
  "create_bookmark_file plain_tables (ustr ''/data/bookmarks'') some_time empty_fs
      (JStr (ustr ''Test'')) (JStr (ustr ''https://example.com'')) JNull (JStr []) [] []
   = (Written (ustr ''/data/bookmarks/unsorted/test.md'') (ustr ''Test'')
        (ustr ''https://example.com'') (ustr ''unsorted'') [],
      \<lparr>nodes = [ustr ''/data/bookmarks/unsorted'' \<mapsto> Dir,
          ustr ''/data/bookmarks/unsorted/test.md''
            \<mapsto> File (bookmark_text (ustr ''Test'') (ustr ''https://example.com'') [] [] [])],
        refuses = (\<lambda>p. False)\<rparr>)"
  by (simp add: writer_defs)

theorem materialized_record_witness:
  "wr_success (Written (ustr ''/data/bookmarks/unsorted/test.md'') (ustr ''Test'')
        (ustr ''https://example.com'') (ustr ''unsorted'') [])
   \<and> \<not> truthy JNull
   \<and> map_of ([] :: (ustring \<times> json) list) (ustr ''category'') = None
   \<and> map_of ([] :: (ustring \<times> json) list) (ustr ''folder'') = None
   \<and> wr_category (fst (create_bookmark_file plain_tables (ustr ''/data/bookmarks'') some_time
        empty_fs (JStr (ustr ''Test'')) (JStr (ustr ''https://example.com'')) JNull (JStr []) [] []))
       = ustr ''unsorted''
   \<and> record_category [] = JStr (ustr ''unsorted'')"
proof -
  have s: "wr_success (Written (ustr ''/data/bookmarks/unsorted/test.md'') (ustr ''Test'')
        (ustr ''https://example.com'') (ustr ''unsorted'') [])"
    by simp
  from materialized_record[OF no_category_eval s, of "[]"] show ?thesis
    by (simp add: no_category_eval)
qed

lemma empty_href_eval:
  "import_html_bookmarks plain_tables plain_library (ustr ''/data/bookmarks'') steady_clock empty_fs
      (Text (ustr ''<DT><A HREF=\"\">Test</A>'')) False
   = (\<lparr>total = 1, success = 1, failed = 0, errors = [],
       imported = [Created (Written (ustr ''/data/bookmarks/unsorted/test.md'') (ustr ''Test'') []
          (ustr ''unsorted'') [])]\<rparr>,
      \<lparr>nodes = [ustr ''/data/bookmarks/unsorted'' \<mapsto> Dir,
          ustr ''/data/bookmarks/unsorted/test.md''
            \<mapsto> File (ustr ''---\<newline>title: Test\<newline>uri: \<newline>tags: []\<newline>---\<newline>[Test]()\<newline>'')],
        refuses = (\<lambda>p. False)\<rparr>)"
  by (simp add: import_html_bookmarks_def read_source_def parse_html_bookmarks_def parser_start_def
      parse_line_def rx_defs no_results_def count_result_def plain_library_def steady_clock_def
      writer_defs)

text \<open>
  A bookmark line with an empty \<^verbatim>\<open>href\<close>, imported from an HTML file: the importer counts
  a success and the writer stores a file whose URI is empty.
\<close>

theorem empty_uri_counterexample:
  "imported (fst (import_html_bookmarks plain_tables plain_library (ustr ''/data/bookmarks'')
      steady_clock empty_fs (Text (ustr ''<DT><A HREF=\"\">Test</A>'')) False))
     = [Created (Written (ustr ''/data/bookmarks/unsorted/test.md'') (ustr ''Test'') []
          (ustr ''unsorted'') [])]
   \<and> nodes (snd (import_html_bookmarks plain_tables plain_library (ustr ''/data/bookmarks'')
      steady_clock empty_fs (Text (ustr ''<DT><A HREF=\"\">Test</A>'')) False))
        (ustr ''/data/bookmarks/unsorted/test.md'')
     = Some (File (ustr ''---\<newline>title: Test\<newline>uri: \<newline>tags: []\<newline>---\<newline>[Test]()\<newline>''))"
  by (simp add: empty_href_eval)

section \<open>Properties of the importers\<close>




lemma count_dry_counts:
  "success (count_dry r e) = success r + 1 \<and> failed (count_dry r e) = failed r
   \<and> total (count_dry r e) = total r \<and> errors (count_dry r e) = errors r"
  by (simp add: count_dry_def)






lemma html_loop_dry:
  "html_loop U bdir clock True i results fs bs = (r, fs') \<Longrightarrow>
   fs' = fs \<and> success r = success results + length bs \<and> failed r = failed results
   \<and> total r = total results \<and> errors r = errors results"
  by (induction bs arbitrary: i results) (auto simp: count_dry_counts)

lemma json_loop_dry:
  "json_loop U bdir clock True i results fs bs = (r, fs') \<Longrightarrow>
   fs' = fs \<and> success r = success results + length bs \<and> failed r = failed results
   \<and> total r = total results \<and> errors r = errors results"
  by (induction bs arbitrary: i results) (auto simp: count_dry_counts)

lemma pocket_loop_dry:
  "pocket_loop U bdir clock True i results fs items = (r, fs') \<Longrightarrow>
   fs' = fs \<and> success r = success results + length items \<and> failed r = failed results
   \<and> total r = total results \<and> errors r = errors results"
  by (induction items arbitrary: i results) (auto simp: count_dry_counts)

lemma csv_loop_dry_fs: "snd (csv_loop U bdir clock True i results fs rows) = fs"
proof (induction rows arbitrary: i results)
  case Nil
  show ?case by simp
next
  case (Cons a rows)
  then show ?case by (cases a) (simp_all add: Let_def)
qed

lemma csv_loop_dry:
  "list_all (\<lambda>row. row \<noteq> None) rows \<Longrightarrow>
   csv_loop U bdir clock True i results fs rows = (r, fs') \<Longrightarrow>
   success r = success results + length rows \<and> failed r = failed results
   \<and> total r = total results + length rows \<and> errors r = errors results"
proof (induction rows arbitrary: i results)
  case Nil
  then show ?case by simp
next
  case (Cons a rows)
  then show ?case by (cases a) (auto simp: Let_def count_dry_counts)
qed






lemma import_file_cases:
  "import_file U L bdir clock fs src format d = (failure FileNotFound, fs)
   \<or> (\<exists>fmt. import_file U L bdir clock fs src format d = (failure (UnsupportedFormat fmt), fs))
   \<or> import_file U L bdir clock fs src format d = import_html_bookmarks U L bdir clock fs src d
   \<or> import_file U L bdir clock fs src format d = import_json_bookmarks U L bdir clock fs src d
   \<or> import_file U L bdir clock fs src format d = import_csv_bookmarks U L bdir clock fs src d
   \<or> import_file U L bdir clock fs src format d = import_pocket_export U L bdir clock fs src d"
  by (auto simp: import_file_def Let_def)







section \<open>Dry runs\<close>

lemma import_html_dry:
  "snd (import_html_bookmarks U L bdir clock fs src True) = fs"
proof (cases "read_source src")
  case (Inl e)
  then show ?thesis by (simp add: import_html_bookmarks_def)
next
  case (Inr content)
  obtain r fs' where l: "html_loop U bdir clock True 0
      (no_results\<lparr>total := length (parse_html_bookmarks U L content)\<rparr>) fs
      (parse_html_bookmarks U L content) = (r, fs')"
    by (cases "html_loop U bdir clock True 0
      (no_results\<lparr>total := length (parse_html_bookmarks U L content)\<rparr>) fs
      (parse_html_bookmarks U L content)")
  from html_loop_dry[OF l] l Inr show ?thesis
    by (simp add: import_html_bookmarks_def Let_def)
qed

lemma import_html_dry_counts:
  "success (fst (import_html_bookmarks U L bdir clock fs (Text content) True))
     = length (parse_html_bookmarks U L content)
   \<and> total (fst (import_html_bookmarks U L bdir clock fs (Text content) True))
     = length (parse_html_bookmarks U L content)
   \<and> failed (fst (import_html_bookmarks U L bdir clock fs (Text content) True)) = 0"
proof -
  obtain r fs' where l: "html_loop U bdir clock True 0
      (no_results\<lparr>total := length (parse_html_bookmarks U L content)\<rparr>) fs
      (parse_html_bookmarks U L content) = (r, fs')"
    by (cases "html_loop U bdir clock True 0
      (no_results\<lparr>total := length (parse_html_bookmarks U L content)\<rparr>) fs
      (parse_html_bookmarks U L content)")
  from html_loop_dry[OF l] l show ?thesis
    by (simp add: import_html_bookmarks_def read_source_def Let_def no_results_def)
qed

lemma import_json_dry:
  "snd (import_json_bookmarks U L bdir clock fs src True) = fs"
proof -
  have "snd (json_loop U bdir clock True 0 results fs bms) = fs" for results bms
    using json_loop_dry[of U bdir clock 0 results fs bms] by (metis prod.collapse)
  then show ?thesis
    by (simp add: import_json_bookmarks_def split: sum.splits option.splits)
qed

lemma import_json_dry_counts:
  assumes "json_loads L content = Some data" "py_elements (json_bookmarks data) = Inr bms"
  shows "success (fst (import_json_bookmarks U L bdir clock fs (Text content) True)) = length bms
   \<and> total (fst (import_json_bookmarks U L bdir clock fs (Text content) True)) = length bms
   \<and> failed (fst (import_json_bookmarks U L bdir clock fs (Text content) True)) = 0"
  using json_loop_dry[of U bdir clock 0 "no_results\<lparr>total := length bms\<rparr>" fs bms] assms
  by (simp add: import_json_bookmarks_def read_source_def no_results_def)
     (metis prod.collapse)

lemma import_csv_dry:
  "snd (import_csv_bookmarks U L bdir clock fs src True) = fs"
  by (simp add: import_csv_bookmarks_def csv_loop_dry_fs split: sum.splits)

lemma import_csv_dry_counts:
  assumes "list_all (\<lambda>row. row \<noteq> None) (csv_rows L content)"
  shows "success (fst (import_csv_bookmarks U L bdir clock fs (Text content) True))
       = length (csv_rows L content)
   \<and> total (fst (import_csv_bookmarks U L bdir clock fs (Text content) True))
       = length (csv_rows L content)
   \<and> failed (fst (import_csv_bookmarks U L bdir clock fs (Text content) True)) = 0"
  using csv_loop_dry[OF assms, of U bdir clock 0 no_results fs]
  by (simp add: import_csv_bookmarks_def read_source_def no_results_def)
     (metis prod.collapse)

lemma import_pocket_dry:
  "snd (import_pocket_export U L bdir clock fs src True) = fs"
proof -
  have "snd (pocket_loop U bdir clock True 0 results fs items) = fs" for results items
    using pocket_loop_dry[of U bdir clock 0 results fs items] by (metis prod.collapse)
  then show ?thesis
    by (simp add: import_pocket_export_def split: sum.splits option.splits)
qed

lemma import_pocket_dry_counts:
  assumes "json_loads L content = Some data" "pocket_items data = Inr items"
  shows "success (fst (import_pocket_export U L bdir clock fs (Text content) True)) = length items
   \<and> total (fst (import_pocket_export U L bdir clock fs (Text content) True)) = length items
   \<and> failed (fst (import_pocket_export U L bdir clock fs (Text content) True)) = 0"
  using pocket_loop_dry[of U bdir clock 0 "no_results\<lparr>total := length items\<rparr>" fs items] assms
  by (simp add: import_pocket_export_def read_source_def no_results_def)
     (metis prod.collapse)

lemma import_file_dry:
  "snd (import_file U L bdir clock fs src format True) = fs"
  using import_file_cases[of U L bdir clock fs src format True]
    import_html_dry[of U L bdir clock fs src] import_json_dry[of U L bdir clock fs src]
    import_csv_dry[of U L bdir clock fs src] import_pocket_dry[of U L bdir clock fs src]
  by (metis snd_conv)

lemmas sample_defs = sample_library_def json_text_def pocket_text_def csv_text_def list_text_def
  ustr_def


lemma sample_json: "json_loads sample_library json_text
     = Some (JArr [JObj [(ustr ''title'', JStr (ustr ''Test'')),
                            (ustr ''url'', JStr (ustr ''https://example.com''))]])"
  by (simp add: sample_library_def)

lemma sample_pocket: "json_loads sample_library pocket_text
  = Some (JObj [(ustr ''list'',
                  JObj [(ustr ''1'',
                    JObj [(ustr ''given_url'', JStr (ustr ''https://example.com'')),
                          (ustr ''given_title'', JStr (ustr ''Test'')),
                          (ustr ''tags'', JObj [(ustr ''x'', JObj []), (ustr ''y'', JObj [])])])])])"
  by (simp add: sample_defs)

lemma sample_csv: "csv_rows sample_library csv_text
   = [Some [(ustr ''title'', JStr (ustr ''Test'')),
                 (ustr ''url'', JStr (ustr ''https://example.com''))]]"
  by (simp add: sample_library_def)

text \<open>
  C7: with \<^verbatim>\<open>dry_run\<close> set, none of the four importers and not \<^verbatim>\<open>import_file\<close> changes the
  file system, whatever the input; and when the file is read, decoded and of the shape
  the importer expects, so that every record is reached, the result has
  \<^verbatim>\<open>success == total\<close>, the number of records.
\<close>

theorem dry_run_creates_nothing:
  "snd (import_html_bookmarks U L bdir clock fs src True) = fs
   \<and> snd (import_json_bookmarks U L bdir clock fs src True) = fs
   \<and> snd (import_csv_bookmarks U L bdir clock fs src True) = fs
   \<and> snd (import_pocket_export U L bdir clock fs src True) = fs
   \<and> snd (import_file U L bdir clock fs src format True) = fs
   \<and> success (fst (import_html_bookmarks U L bdir clock fs (Text content) True))
       = total (fst (import_html_bookmarks U L bdir clock fs (Text content) True))
   \<and> total (fst (import_html_bookmarks U L bdir clock fs (Text content) True))
       = length (parse_html_bookmarks U L content)
   \<and> (json_loads L content = Some data \<and> py_elements (json_bookmarks data) = Inr bms \<longrightarrow>
        success (fst (import_json_bookmarks U L bdir clock fs (Text content) True))
          = total (fst (import_json_bookmarks U L bdir clock fs (Text content) True))
        \<and> total (fst (import_json_bookmarks U L bdir clock fs (Text content) True)) = length bms)
   \<and> (list_all (\<lambda>row. row \<noteq> None) (csv_rows L content) \<longrightarrow>
        success (fst (import_csv_bookmarks U L bdir clock fs (Text content) True))
          = total (fst (import_csv_bookmarks U L bdir clock fs (Text content) True))
        \<and> total (fst (import_csv_bookmarks U L bdir clock fs (Text content) True))
          = length (csv_rows L content))
   \<and> (json_loads L content = Some data \<and> pocket_items data = Inr items \<longrightarrow>
        success (fst (import_pocket_export U L bdir clock fs (Text content) True))
          = total (fst (import_pocket_export U L bdir clock fs (Text content) True))
        \<and> total (fst (import_pocket_export U L bdir clock fs (Text content) True)) = length items)"
  using import_html_dry[of U L bdir clock fs src] import_json_dry[of U L bdir clock fs src]
    import_csv_dry[of U L bdir clock fs src] import_pocket_dry[of U L bdir clock fs src]
    import_file_dry[of U L bdir clock fs src format]
    import_html_dry_counts[of U L bdir clock fs content]
    import_json_dry_counts[of L content data bms U bdir clock fs]
    import_csv_dry_counts[of L content U bdir clock fs]
    import_pocket_dry_counts[of L content data items U bdir clock fs]
  by simp


theorem dry_run_creates_nothing_witness:
  "json_loads sample_library json_text \<noteq> None
   \<and> list_all (\<lambda>row. row \<noteq> None) (csv_rows sample_library csv_text)
   \<and> json_loads sample_library pocket_text \<noteq> None
   \<and> success (fst (import_json_bookmarks plain_tables sample_library (ustr ''/data/bookmarks'')
        steady_clock empty_fs (Text json_text) True)) = 1
   \<and> total (fst (import_json_bookmarks plain_tables sample_library (ustr ''/data/bookmarks'')
        steady_clock empty_fs (Text json_text) True)) = 1
   \<and> success (fst (import_csv_bookmarks plain_tables sample_library (ustr ''/data/bookmarks'')
        steady_clock empty_fs (Text csv_text) True)) = 1
   \<and> total (fst (import_csv_bookmarks plain_tables sample_library (ustr ''/data/bookmarks'')
        steady_clock empty_fs (Text csv_text) True)) = 1
   \<and> success (fst (import_pocket_export plain_tables sample_library (ustr ''/data/bookmarks'')
        steady_clock empty_fs (Text pocket_text) True)) = 1
   \<and> total (fst (import_pocket_export plain_tables sample_library (ustr ''/data/bookmarks'')
        steady_clock empty_fs (Text pocket_text) True)) = 1
   \<and> snd (import_file plain_tables sample_library (ustr ''/data/bookmarks'') steady_clock empty_fs
        (Text json_text) None True) = empty_fs"
proof -
  let ?b = "JObj [(ustr ''title'', JStr (ustr ''Test'')),
                  (ustr ''url'', JStr (ustr ''https://example.com''))]"
  let ?i = "JObj [(ustr ''given_url'', JStr (ustr ''https://example.com'')),
                  (ustr ''given_title'', JStr (ustr ''Test'')),
                  (ustr ''tags'', JObj [(ustr ''x'', JObj []), (ustr ''y'', JObj [])])]"
  have j: "py_elements (json_bookmarks (JArr [?b])) = Inr [?b]"
    by (simp add: py_elements_def json_bookmarks_def)
  have c: "list_all (\<lambda>row. row \<noteq> None) (csv_rows sample_library csv_text)"
    by (simp add: sample_csv)
  have p: "pocket_items (JObj [(ustr ''list'', JObj [(ustr ''1'', ?i)])]) = Inr [(ustr ''1'', ?i)]"
    by (simp add: pocket_items_def py_contains_def py_getitem_def py_elements_def)
  note t = dry_run_creates_nothing[of plain_tables sample_library "ustr ''/data/bookmarks''"
      steady_clock empty_fs "Text json_text" None]
  from t[of json_text "JArr [?b]" "[?b]"] sample_json j
  have a1: "success (fst (import_json_bookmarks plain_tables sample_library (ustr ''/data/bookmarks'')
        steady_clock empty_fs (Text json_text) True)) = 1
     \<and> total (fst (import_json_bookmarks plain_tables sample_library (ustr ''/data/bookmarks'')
        steady_clock empty_fs (Text json_text) True)) = 1
     \<and> snd (import_file plain_tables sample_library (ustr ''/data/bookmarks'') steady_clock empty_fs
        (Text json_text) None True) = empty_fs"
    by simp
  from t[of csv_text] c sample_csv
  have a2: "success (fst (import_csv_bookmarks plain_tables sample_library (ustr ''/data/bookmarks'')
        steady_clock empty_fs (Text csv_text) True)) = 1
     \<and> total (fst (import_csv_bookmarks plain_tables sample_library (ustr ''/data/bookmarks'')
        steady_clock empty_fs (Text csv_text) True)) = 1"
    by simp
  from t[of pocket_text "JObj [(ustr ''list'', JObj [(ustr ''1'', ?i)])]" _ "[(ustr ''1'', ?i)]"]
    sample_pocket p
  have a3: "success (fst (import_pocket_export plain_tables sample_library (ustr ''/data/bookmarks'')
        steady_clock empty_fs (Text pocket_text) True)) = 1
     \<and> total (fst (import_pocket_export plain_tables sample_library (ustr ''/data/bookmarks'')
        steady_clock empty_fs (Text pocket_text) True)) = 1"
    by simp
  from a1 a2 a3 c sample_json sample_pocket show ?thesis by simp
qed

section \<open>Format detection\<close>





















section \<open>Search after write\<close>

lemma search_files_mono:
  "set results \<subseteq> set (search_files U L q limit root results files)"
proof (induction files arbitrary: results)
  case Nil
  show ?case by simp
next
  case (Cons e files)
  show ?case
  proof (cases "matching_text U q root e")
    case None
    then show ?thesis using Cons[of results] by simp
  next
    case (Some c)
    then show ?thesis
      using Cons[of "results @ [extract_result L root (os_path_join root (fst e)) c]"]
      by (auto simp: Let_def)
  qed
qed

lemma search_files_length:
  "int (length results + matches_in_files U q root files) < limit \<Longrightarrow>
   length (search_files U L q limit root results files)
     = length results + matches_in_files U q root files"
proof (induction files arbitrary: results)
  case Nil
  show ?case by (simp add: matches_in_files_def)
next
  case (Cons e files)
  show ?case
  proof (cases "matching_text U q root e")
    case None
    then show ?thesis using Cons by (simp add: matches_in_files_def)
  next
    case (Some c)
    let ?r1 = "results @ [extract_result L root (os_path_join root (fst e)) c]"
    from Some Cons.prems have l: "int (length ?r1 + matches_in_files U q root files) < limit"
      by (simp add: matches_in_files_def)
    then have "\<not> limit \<le> int (length ?r1)" by simp
    with Some Cons.IH[OF l] show ?thesis by (simp add: Let_def matches_in_files_def)
  qed
qed

lemma search_files_finds:
  assumes "matching_text U q root e = Some c"
    and "int (length results + matches_in_files U q root fb) < limit"
  shows "extract_result L root (os_path_join root (fst e)) c
     \<in> set (search_files U L q limit root results (fb @ e # fa))"
  using assms(2)
proof (induction fb arbitrary: results)
  case Nil
  let ?r1 = "results @ [extract_result L root (os_path_join root (fst e)) c]"
  have "extract_result L root (os_path_join root (fst e)) c \<in> set ?r1" by simp
  then show ?case
    using assms(1) search_files_mono[of ?r1 U L q limit root fa]
    by (auto simp: Let_def)
next
  case (Cons x fb)
  show ?case
  proof (cases "matching_text U q root x")
    case None
    then show ?thesis using Cons by (simp add: matches_in_files_def)
  next
    case (Some d)
    let ?r1 = "results @ [extract_result L root (os_path_join root (fst x)) d]"
    from Some Cons.prems have l: "int (length ?r1 + matches_in_files U q root fb) < limit"
      by (simp add: matches_in_files_def)
    then have "\<not> limit \<le> int (length ?r1)" by simp
    with Some Cons.IH[OF l] show ?thesis by (simp add: Let_def)
  qed
qed

lemma search_dirs_mono:
  "set results \<subseteq> set (search_dirs U L q limit results tree)"
proof (induction tree arbitrary: results)
  case Nil
  show ?case by simp
next
  case (Cons d tree)
  obtain root files where d: "d = (root, files)" by (cases d)
  show ?case
    using search_files_mono[of results U L q limit root files]
      Cons[of "search_files U L q limit root results files"] d
    by (auto simp: Let_def)
qed

lemma search_dirs_finds:
  assumes "matching_text U q root e = Some c"
    and "int (length results + matches_in_tree U q before + matches_in_files U q root fb) < limit"
  shows "extract_result L root (os_path_join root (fst e)) c
     \<in> set (search_dirs U L q limit results (before @ (root, fb @ e # fa) # after))"
  using assms(2)
proof (induction before arbitrary: results)
  case Nil
  then have l: "int (length results + matches_in_files U q root fb) < limit"
    by (simp add: matches_in_tree_def)
  let ?r1 = "search_files U L q limit root results (fb @ e # fa)"
  have "extract_result L root (os_path_join root (fst e)) c \<in> set ?r1"
    using search_files_finds[OF assms(1) l] .
  then show ?case
    using search_dirs_mono[of ?r1 U L q limit after] by (auto simp: Let_def)
next
  case (Cons d before)
  obtain r0 f0 where d: "d = (r0, f0)" by (cases d)
  let ?r1 = "search_files U L q limit r0 results f0"
  from Cons.prems d have a: "int (length results + matches_in_files U q r0 f0) < limit"
    by (simp add: matches_in_tree_def)
  have len: "length ?r1 = length results + matches_in_files U q r0 f0"
    using search_files_length[OF a] .
  from Cons.prems d len
  have l: "int (length ?r1 + matches_in_tree U q before + matches_in_files U q root fb) < limit"
    by (simp add: matches_in_tree_def)
  then have "\<not> limit \<le> int (length ?r1)" by simp
  with Cons.IH[OF l] d show ?case by (simp add: Let_def)
qed

lemmas search_defs = field_re_def tags_re_def first_group_def parse_tags_def lit_def match_group_def
  between_def dot_def is_space_def strip_def strip_chars_def bookmark_text_def ustr_def

lemma test_text_fields:
  "first_group (field_re ''uri'') (bookmark_text (ustr ''Test'') (ustr ''https://example.com'') [] [] [])
     = ustr ''https://example.com''
   \<and> first_group (field_re ''title'') (bookmark_text (ustr ''Test'') (ustr ''https://example.com'') [] [] [])
     = ustr ''Test''
   \<and> parse_tags (first_group tags_re (bookmark_text (ustr ''Test'') (ustr ''https://example.com'') [] [] []))
     = []"
  by (simp add: search_defs)

lemma test_text_contains:
  "contains (lower U (bookmark_text (ustr ''Test'') (ustr ''https://example.com'') [] [] []))
      (lower U (ustr ''test''))
   \<and> contains (lower U (bookmark_text (ustr ''Test'') (ustr ''https://example.com'') [] [] []))
      (lower U (ustr ''example.com''))"
  by (simp add: bookmark_text_def ustr_def lower_def ascii_lower_def startswith_def)

lemma takeWhile_rev_suffix:
  "slash \<notin> set b \<Longrightarrow> (a = [] \<or> last a = slash) \<Longrightarrow>
   rev (takeWhile (\<lambda>c. c \<noteq> slash) (rev (a @ b))) = b"
proof -
  assume b: "slash \<notin> set b" and a: "a = [] \<or> last a = slash"
  have t: "takeWhile (\<lambda>c. c \<noteq> slash) (rev b @ rev a) = rev b @ takeWhile (\<lambda>c. c \<noteq> slash) (rev a)"
    using b by (intro takeWhile_append2) auto
  have "takeWhile (\<lambda>c. c \<noteq> slash) (rev a) = []"
  proof (cases "a = []")
    case True
    then show ?thesis by simp
  next
    case False
    with a have "hd (rev a) = slash" by (simp add: hd_rev)
    with False show ?thesis by (cases "rev a") auto
  qed
  with t show ?thesis by simp
qed

lemma basename_join:
  "slash \<notin> set b \<Longrightarrow> b \<noteq> [] \<Longrightarrow> os_path_basename (os_path_join a b) = b"
proof -
  assume b: "slash \<notin> set b" and ne: "b \<noteq> []"
  then have h: "hd b \<noteq> slash" by (cases b) auto
  show ?thesis
  proof (cases "a = [] \<or> last a = slash")
    case True
    with h ne show ?thesis
      using takeWhile_rev_suffix[OF b True]
      by (auto simp: os_path_basename_def os_path_join_def)
  next
    case False
    have "rev (takeWhile (\<lambda>c. c \<noteq> slash) (rev ((a @ [slash]) @ b))) = b"
      by (rule takeWhile_rev_suffix[OF b]) simp
    with False h ne show ?thesis
      by (simp add: os_path_basename_def os_path_join_def)
  qed
qed

lemma slug_test: "importer_slugify U (ustr ''test'') = ustr ''test''"
  by (simp add: importer_slugify_def lower_def strip_def strip_chars_def is_space_def
      ascii_lower_def is_lower_alnum_def hyphen_def ustr_def Let_def)

lemma basename_test_dir: "os_path_basename (category_dir U bdir (ustr ''test'')) = ustr ''test''"
  unfolding category_dir_def slug_test
  by (rule basename_join) (simp_all add: ustr_def slash_def)

lemma strip_or_test:
  "strip_or (JStr (ustr ''Test'')) d = Inr (ustr ''Test'')
   \<and> strip_or (JStr (ustr ''https://example.com'')) d = Inr (ustr ''https://example.com'')
   \<and> strip_or (JStr (ustr ''test'')) d = Inr (ustr ''test'')
   \<and> strip_or (JStr []) [] = Inr []"
  by (simp add: strip_or_def strip_def strip_chars_def is_space_def ustr_def)


lemma test_tree_search:
  "search_bookmarks plain_tables plain_library test_tree (ustr ''test'') 20
     = [\<lparr>sr_id = [], sr_url = ustr ''https://example.com'', sr_title = ustr ''Test'',
          sr_tags = [], sr_category = ustr ''test''\<rparr>]"
  by (simp add: search_bookmarks_def test_tree_def matching_text_def endswith_def extract_result_def
      os_path_basename_def os_path_join_def slash_def is_surrogate_def plain_library_def
      lower_def ascii_lower_def startswith_def search_defs Let_def)


text \<open>
  C8, as the code has it: the bookmark written by the import-path writer with title
  \<open>Test\<close>, URI \<^verbatim>\<open>https://example.com\<close>, category \<open>test\<close> and no tags is found by a search
  for \<open>test\<close> and by a search for \<^verbatim>\<open>example.com\<close>, with that title, that URI, the category
  \<open>test\<close> and an empty sequence of tags, whenever the walk lists the written file under
  its directory with its text, the path can be encoded, and fewer matching files than
  the limit are visited before it.
\<close>

theorem written_bookmark_found:
  assumes w: "create_bookmark_file U bdir now fs (JStr (ustr ''Test''))
       (JStr (ustr ''https://example.com'')) (JStr (ustr ''test'')) (JStr []) [] [] = (r, fs')"
    and s: "wr_success r"
    and q: "query = ustr ''test'' \<or> query = ustr ''example.com''"
    and t: "tree = before @ (category_dir U bdir (wr_category r), fb @ (name, Some content) # fa) # after"
    and n: "os_path_join (category_dir U bdir (wr_category r)) name = wr_filename r"
    and m: "endswith name (ustr ''.md'')"
    and c: "nodes fs' (path_key (wr_filename r)) = Some (File content)"
    and e: "\<not> list_ex is_surrogate (wr_filename r)"
    and l: "int (matches_in_tree U (lower U query) before
             + matches_in_files U (lower U query) (category_dir U bdir (wr_category r)) fb) < limit"
  shows "\<lparr>sr_id = md5_hexdigest L (wr_filename r), sr_url = ustr ''https://example.com'',
          sr_title = ustr ''Test'', sr_tags = [], sr_category = ustr ''test''\<rparr>
     \<in> set (search_bookmarks U L tree query limit)"
proof -
  from wr_success_Written[OF s] obtain f tt u cc g where r: "r = Written f tt u cc g" by blast
  note cw = create_Written[OF w[unfolded r]]
  from cw strip_or_test have v: "tt = ustr ''Test''" "u = ustr ''https://example.com''"
    "cc = ustr ''test''" "g = []" by simp_all
  let ?text = "bookmark_text (ustr ''Test'') (ustr ''https://example.com'') [] [] []"
  let ?root = "category_dir U bdir (ustr ''test'')"
  from create_stores[OF w[unfolded r]] c r v have content: "content = ?text" by simp
  have len: "\<not> length query < 3" using q by (auto simp: ustr_def)
  have con: "contains (lower U ?text) (lower U query)"
    using q test_text_contains[of U] by auto
  have mt: "matching_text U (lower U query) ?root (name, Some content) = Some content"
    using m con e n r v content by (simp add: matching_text_def)
  from l r v have l': "int (length ([] :: search_result list)
       + matches_in_tree U (lower U query) before
       + matches_in_files U (lower U query) ?root fb) < limit"
    by simp
  from search_dirs_finds[OF mt l', of L fa after] t r v n
  have "extract_result L ?root (wr_filename r) content
      \<in> set (search_bookmarks U L tree query limit)"
    using len by (simp add: search_bookmarks_def)
  then show ?thesis
    using content test_text_fields basename_test_dir[of U bdir]
    by (simp add: extract_result_def)
qed

theorem written_bookmark_found_witness:
  "wr_success (fst first_write)
   \<and> endswith (ustr ''test.md'') (ustr ''.md'')
   \<and> \<not> list_ex is_surrogate (wr_filename (fst first_write))
   \<and> nodes (snd first_write) (path_key (wr_filename (fst first_write)))
       = Some (File (bookmark_text (ustr ''Test'') (ustr ''https://example.com'') [] [] []))
   \<and> \<lparr>sr_id = md5_hexdigest plain_library (wr_filename (fst first_write)),
        sr_url = ustr ''https://example.com'', sr_title = ustr ''Test'', sr_tags = [],
        sr_category = ustr ''test''\<rparr>
       \<in> set (search_bookmarks plain_tables plain_library test_tree (ustr ''test'') 20)
   \<and> \<lparr>sr_id = md5_hexdigest plain_library (wr_filename (fst first_write)),
        sr_url = ustr ''https://example.com'', sr_title = ustr ''Test'', sr_tags = [],
        sr_category = ustr ''test''\<rparr>
       \<in> set (search_bookmarks plain_tables plain_library test_tree (ustr ''example.com'') 20)"
proof -
  let ?text = "bookmark_text (ustr ''Test'') (ustr ''https://example.com'') [] [] []"
  have w: "create_bookmark_file plain_tables (ustr ''/data/bookmarks'') some_time empty_fs
       (JStr (ustr ''Test'')) (JStr (ustr ''https://example.com'')) (JStr (ustr ''test'')) (JStr [])
       [] [] = (fst first_write, snd first_write)"
    by (simp add: first_write_def)
  have s: "wr_success (fst first_write)" by (simp add: first_write_eval)
  have wc: "wr_category (fst first_write) = ustr ''test''"
    and wf: "wr_filename (fst first_write) = ustr ''/data/bookmarks/test/test.md''"
    by (simp_all add: first_write_eval)
  have d': "category_dir plain_tables (ustr ''/data/bookmarks'') (ustr ''test'')
      = ustr ''/data/bookmarks/test''"
    by (simp add: writer_defs)
  have d: "category_dir plain_tables (ustr ''/data/bookmarks'') (wr_category (fst first_write))
      = ustr ''/data/bookmarks/test''"
    by (simp only: wc d')
  have t: "test_tree = [(ustr ''/data/bookmarks'', [])]
      @ (category_dir plain_tables (ustr ''/data/bookmarks'') (wr_category (fst first_write)),
         [] @ (ustr ''test.md'', Some ?text) # []) # []"
    by (simp add: d test_tree_def)
  have n: "os_path_join (category_dir plain_tables (ustr ''/data/bookmarks'')
      (wr_category (fst first_write))) (ustr ''test.md'') = wr_filename (fst first_write)"
    by (simp only: d wf) (simp add: os_path_join_def ustr_def slash_def)
  have m: "endswith (ustr ''test.md'') (ustr ''.md'')" by (simp add: endswith_def ustr_def)
  have c: "nodes (snd first_write) (path_key (wr_filename (fst first_write))) = Some (File ?text)"
    by (simp only: wf) (simp add: first_write_eval path_key_def ustr_def slash_def)
  have e: "\<not> list_ex is_surrogate (wr_filename (fst first_write))"
    by (simp only: wf) (simp add: ustr_def is_surrogate_def)
  have l: "int (matches_in_tree plain_tables (lower plain_tables q) [(ustr ''/data/bookmarks'', [])]
       + matches_in_files plain_tables (lower plain_tables q)
           (category_dir plain_tables (ustr ''/data/bookmarks'') (wr_category (fst first_write))) [])
       < 20" for q
    by (simp add: matches_in_tree_def matches_in_files_def)
  have q1: "ustr ''test'' = ustr ''test'' \<or> ustr ''test'' = ustr ''example.com''" by simp
  have q2: "ustr ''example.com'' = ustr ''test'' \<or> ustr ''example.com'' = ustr ''example.com''"
    by simp
  note a = written_bookmark_found[OF w s q1 t n m c e l, of plain_library]
  note b = written_bookmark_found[OF w s q2 t n m c e l, of plain_library]
  from a b s m c e show ?thesis by blast
qed


text \<open>
  The bookmark written into an empty tree and searched for: the one result has the
  category \<open>test\<close>, and its tags are empty, so they do not contain \<open>test\<close>. The writer of
  the import path stores the tags it is given and nothing else.
\<close>

theorem search_tags_counterexample:
  "fst first_write = Written (ustr ''/data/bookmarks/test/test.md'') (ustr ''Test'')
      (ustr ''https://example.com'') (ustr ''test'') []
   \<and> nodes (snd first_write) (ustr ''/data/bookmarks/test/test.md'')
       = Some (File (bookmark_text (ustr ''Test'') (ustr ''https://example.com'') [] [] []))
   \<and> map sr_category (search_bookmarks plain_tables plain_library test_tree (ustr ''test'') 20)
       = [ustr ''test'']
   \<and> map sr_tags (search_bookmarks plain_tables plain_library test_tree (ustr ''test'') 20) = [[]]"
  by (simp add: test_tree_search first_write_eval)

section \<open>Properties of the manual creation\<close>









end
